theory Spec2Isabelle
  imports Main
begin

section \<open>JavaScript values\<close>

text \<open>
  The values callers hand to the wrapper (\<open>auth\<close>, \<open>app_data\<close>, \<open>challenge_data\<close>,
  \<open>ops\<close>) and the values \<open>JSON.parse\<close> produces. Numbers are the integers; an object is
  the list of its properties, the first binding of a name being the one that is read.
\<close>

datatype jsval =
    JUndefined
  | JNull
  | JBool bool
  | JNum int
  | JStr string
  | JArr "jsval list"
  | JObj "(string \<times> jsval) list"

text \<open>JavaScript's truthiness: \<open>undefined\<close>, \<open>null\<close>, \<open>false\<close>, \<open>0\<close> and the empty
  string are falsy, every array and object is truthy.\<close>

fun truthy :: "jsval \<Rightarrow> bool" where
  "truthy JUndefined = False"
| "truthy JNull = False"
| "truthy (JBool b) = b"
| "truthy (JNum n) = (n \<noteq> 0)"
| "truthy (JStr s) = (s \<noteq> [])"
| "truthy (JArr xs) = True"
| "truthy (JObj kvs) = True"

text \<open>\<open>typeof(v)=="string"\<close>.\<close>

fun is_string :: "jsval \<Rightarrow> bool" where
  "is_string (JStr s) = True"
| "is_string v = False"

text \<open>
  Reading the property \<open>v.k\<close> of a truthy value. The names read by the wrapper
  (\<open>username\<close>, \<open>token\<close>, \<open>key\<close>, \<open>name\<close>, \<open>key_type\<close>, \<open>challenge\<close>, \<open>expire\<close>)
  are not built-in properties of a primitive or of an array, so the read gives
  \<open>undefined\<close> on anything but an object. Reading a property of \<open>undefined\<close> or
  \<open>null\<close> throws in JavaScript; every such read of the source is guarded, and the
  one that is not (\<open>req_ack.data.token\<close>) is written out where it occurs.
\<close>

fun get_prop :: "jsval \<Rightarrow> string \<Rightarrow> jsval" where
  "get_prop (JObj kvs) k = (case map_of kvs k of None \<Rightarrow> JUndefined | Some v \<Rightarrow> v)"
| "get_prop v k = JUndefined"

fun set_binding :: "string \<Rightarrow> jsval \<Rightarrow> (string \<times> jsval) list \<Rightarrow> (string \<times> jsval) list" where
  "set_binding k v [] = [(k, v)]"
| "set_binding k v ((k', v') # kvs) =
     (if k' = k then (k, v) # kvs else (k', v') # set_binding k v kvs)"

text \<open>The assignment \<open>v.k = x\<close> on an object.\<close>

fun set_prop :: "jsval \<Rightarrow> string \<Rightarrow> jsval \<Rightarrow> jsval" where
  "set_prop (JObj kvs) k x = JObj (set_binding k x kvs)"
| "set_prop v k x = v"

section \<open>Protocol messages and the command names\<close>

definition CONNECTED :: string where "CONNECTED = ''connected''"
definition AUTH_REQ :: string where "AUTH_REQ = ''auth_req''"
definition AUTH_WAIT :: string where "AUTH_WAIT = ''auth_wait''"
definition AUTH_ACK :: string where "AUTH_ACK = ''auth_ack''"
definition AUTH_NACK :: string where "AUTH_NACK = ''auth_nack''"
definition AUTH_ERR :: string where "AUTH_ERR = ''auth_err''"
definition SIGN_REQ :: string where "SIGN_REQ = ''sign_req''"
definition SIGN_WAIT :: string where "SIGN_WAIT = ''sign_wait''"
definition SIGN_ACK :: string where "SIGN_ACK = ''sign_ack''"
definition SIGN_NACK :: string where "SIGN_NACK = ''sign_nack''"
definition SIGN_ERR :: string where "SIGN_ERR = ''sign_err''"
definition CHALLENGE_REQ :: string where "CHALLENGE_REQ = ''challenge_req''"
definition CHALLENGE_WAIT :: string where "CHALLENGE_WAIT = ''challenge_wait''"
definition CHALLENGE_ACK :: string where "CHALLENGE_ACK = ''challenge_ack''"
definition CHALLENGE_NACK :: string where "CHALLENGE_NACK = ''challenge_nack''"
definition CHALLENGE_ERR :: string where "CHALLENGE_ERR = ''challenge_err''"
definition ERROR :: string where "ERROR = ''error''"

text \<open>
  A message pushed by the server, after \<open>JSON.parse\<close>. \<open>cmd\<close> is a string (the empty
  string also stands for a message without \<open>cmd\<close>: both are falsy). \<open>uuid\<close> is a string
  or absent, \<open>expire\<close> and \<open>timeout\<close> are numbers or absent (\<open>None\<close>: \<open>undefined\<close>, on which
  every comparison is false). \<open>data\<close> and \<open>error\<close> hold the encrypted payloads as they
  arrive; \<open>data\<close> is overwritten with the parsed payload by two of the flows. \<open>key\<close> is
  the property the authenticate flow adds to an \<open>auth_wait\<close> message before handing it
  to the application.
\<close>

record message =
  cmd :: string
  uuid :: "string option"
  expire :: "int option"
  data :: jsval
  error :: jsval
  key :: jsval
  timeout :: "int option"

text \<open>Truthiness and the two comparisons with \<open>Date.now()\<close> on these fields.\<close>

definition truthy_str :: "string option \<Rightarrow> bool" where
  "truthy_str u = (case u of None \<Rightarrow> False | Some s \<Rightarrow> s \<noteq> [])"

definition truthy_num :: "int option \<Rightarrow> bool" where
  "truthy_num e = (case e of None \<Rightarrow> False | Some n \<Rightarrow> n \<noteq> 0)"

definition num_ge :: "int option \<Rightarrow> int \<Rightarrow> bool" where
  "num_ge e now = (case e of None \<Rightarrow> False | Some n \<Rightarrow> now \<le> n)"

definition num_le :: "int option \<Rightarrow> int \<Rightarrow> bool" where
  "num_le e now = (case e of None \<Rightarrow> False | Some n \<Rightarrow> n \<le> now)"

section \<open>The pending message store\<close>

text \<open>
  \<open>getRequest(type, uuid)\<close> on the module's array \<open>requests\<close>, with the value of
  \<open>Date.now()\<close> as an argument. It returns the entry found (if any) and the new
  value of \<open>requests\<close>.
  \<^item> \<open>requests.filter(o => !o.expire || o.expire >= Date.now())\<close>
  \<^item> \<open>requests.find(o => o.cmd==type && (uuid ? o.uuid==uuid : true))\<close>
  \<^item> \<open>requests.filter(o => !(o.cmd==type && (uuid ? o.uuid==req.uuid : true)))\<close>
\<close>

definition getRequest ::
  "int \<Rightarrow> string \<Rightarrow> string option \<Rightarrow> message list \<Rightarrow> message option \<times> message list" where
  "getRequest now ty uid requests =
     (let requests1 = filter (\<lambda>x. \<not> truthy_num (expire x) \<or> num_ge (expire x) now) requests;
          req = find (\<lambda>x. cmd x = ty \<and> (if truthy_str uid then uuid x = uid else True)) requests1
      in case req of
           None \<Rightarrow> (None, requests1)
         | Some r \<Rightarrow>
             (Some r,
              filter (\<lambda>x. \<not> (cmd x = ty \<and> (if truthy_str uid then uuid x = uuid r else True)))
                requests1))"

text \<open>The module's state: the store, what was handed to the socket, the timeout
  announced by the server (in milliseconds; \<open>None\<close> is \<open>NaN\<close>) and the option
  \<open>auth_key_secret\<close>.\<close>

record world =
  requests :: "message list"
  sent :: "string list"
  HAS_timeout :: "int option"
  auth_key_secret :: jsval

definition stored_kinds :: "string list" where
  "stored_kinds =
     [AUTH_WAIT, AUTH_ACK, AUTH_NACK, AUTH_ERR,
      SIGN_WAIT, SIGN_ACK, SIGN_NACK, SIGN_ERR,
      CHALLENGE_WAIT, CHALLENGE_ACK, CHALLENGE_NACK, CHALLENGE_ERR, ERROR]"

text \<open>\<open>wsHAS.onmessage\<close>: the handshake sets the timeout, the thirteen protocol kinds
  are pushed on the store, anything else is dropped. (The protocol version is only
  logged.)\<close>

definition onmessage :: "message \<Rightarrow> world \<Rightarrow> world" where
  "onmessage msg w =
     (if cmd msg = [] then w
      else if cmd msg = CONNECTED then
        w\<lparr>HAS_timeout := map_option (\<lambda>t. t * 1000) (timeout msg)\<rparr>
      else if cmd msg \<in> set stored_kinds then w\<lparr>requests := requests w @ [msg]\<rparr>
      else w)"

section \<open>Collaborators: encryption and JSON\<close>

text \<open>
  \<open>CryptoJS\<close> and \<open>JSON\<close> are not part of the wrapper; the flows take them as a
  parameter.
  \<^item> \<open>aes_encrypt c p k\<close> is \<open>CryptoJS.AES.encrypt(p, k).toString()\<close>, \<open>None\<close>
    when it throws (\<open>authenticate\<close> hands it \<open>auth.key\<close> without testing its type);
  \<^item> \<open>aes_decrypt c d k\<close> is \<open>CryptoJS.AES.decrypt(d, k).toString(CryptoJS.enc.Utf8)\<close>,
    \<open>None\<close> when it throws;
  \<^item> \<open>json_parse c s\<close> is \<open>JSON.parse(s)\<close>, \<open>None\<close> when it throws;
  \<^item> \<open>json_stringify c v\<close> is \<open>JSON.stringify(v)\<close>.
  CryptoJS salts each encryption; \<open>aes_encrypt\<close> stands for the results of the
  encryptions of one run.
\<close>

record codec =
  aes_encrypt :: "jsval \<Rightarrow> jsval \<Rightarrow> string option"
  aes_decrypt :: "jsval \<Rightarrow> jsval \<Rightarrow> string option"
  json_parse :: "string \<Rightarrow> jsval option"
  json_stringify :: "jsval \<Rightarrow> string"

section \<open>Promises, intervals and the state of a flow\<close>

datatype exn = AssertionError string | EncryptError | DecryptError

text \<open>What a flow's promise was rejected with: a message (\<open>reject(req_nack)\<close>) or
  \<open>new Error(text)\<close>.\<close>

datatype rejection = RejMessage message | RejError string

datatype promise = Pending | Fulfilled message | Rejected rejection

text \<open>
  One call of \<open>authenticate\<close>, \<open>broadcast\<close> or \<open>challenge\<close>: the variables \<open>uuid\<close> and
  \<open>expire\<close> of the closure, whether the interval \<open>wait\<close> is still set, the promise
  returned to the caller, the messages \<open>cbWait\<close> was called with, the caller's
  \<open>auth\<close> object (which \<open>authenticate\<close> updates), the constant \<open>auth_key\<close> and
  whether a \<open>cbWait\<close> was supplied. The callback is taken to return normally.
\<close>

record flow =
  f_uuid :: "string option"
  f_expire :: "int option"
  f_wait :: bool
  f_promise :: promise
  f_cbWait :: "message list"
  f_auth :: jsval
  f_auth_key :: jsval
  f_cb :: bool

text \<open>A promise is settled once: \<open>resolve\<close> and \<open>reject\<close> on a settled promise do
  nothing.\<close>

definition resolve :: "message \<Rightarrow> flow \<Rightarrow> flow" where
  "resolve v st = (if f_promise st = Pending then st\<lparr>f_promise := Fulfilled v\<rparr> else st)"

definition reject :: "rejection \<Rightarrow> flow \<Rightarrow> flow" where
  "reject e st = (if f_promise st = Pending then st\<lparr>f_promise := Rejected e\<rparr> else st)"

definition clearInterval :: "flow \<Rightarrow> flow" where
  "clearInterval st = st\<lparr>f_wait := False\<rparr>"

text \<open>The last statement of each of the three interval callbacks:
  \<open>if(expire <= Date.now()) { clearInterval(wait); reject(new Error("expired")) }\<close>.\<close>

definition check_expired :: "int \<Rightarrow> flow \<Rightarrow> flow" where
  "check_expired now st =
     (if num_le (f_expire st) now then reject (RejError ''expired'') (clearInterval st) else st)"

text \<open>
  The executor of each promise is an \<open>async\<close> function. An exception thrown in it
  (a failed \<open>assert\<close>) rejects the promise of the executor itself, which
  \<open>new Promise\<close> discards: neither \<open>resolve\<close> nor \<open>reject\<close> of the returned promise
  is called, nothing is sent and no interval is set. \<open>never_started\<close> is the flow
  left behind.
\<close>

definition never_started :: "jsval \<Rightarrow> bool \<Rightarrow> flow" where
  "never_started auth cb =
     \<lparr>f_uuid = None, f_expire = None, f_wait = False, f_promise = Pending, f_cbWait = [],
      f_auth = auth, f_auth_key = JUndefined, f_cb = cb\<rparr>"

text \<open>After \<open>send\<close>: \<open>let expire = Date.now() + HAS_timeout\<close>, \<open>let uuid = undefined\<close>,
  and the interval is set.\<close>

definition started :: "jsval \<Rightarrow> jsval \<Rightarrow> bool \<Rightarrow> int \<Rightarrow> world \<Rightarrow> flow" where
  "started auth auth_key cb now w =
     \<lparr>f_uuid = None, f_expire = map_option (\<lambda>t. now + t) (HAS_timeout w), f_wait = True,
      f_promise = Pending, f_cbWait = [], f_auth = auth, f_auth_key = auth_key, f_cb = cb\<rparr>"

definition send :: "string \<Rightarrow> world \<Rightarrow> world" where
  "send msg w = w\<lparr>sent := sent w @ [msg]\<rparr>"

text \<open>\<open>Array.isArray(v)\<close> and \<open>v.length\<close> of an array.\<close>

fun is_array :: "jsval \<Rightarrow> bool" where
  "is_array (JArr xs) = True"
| "is_array v = False"

fun array_length :: "jsval \<Rightarrow> nat" where
  "array_length (JArr xs) = length xs"
| "array_length v = 0"



text \<open>
  The three queries that open the second branch of each interval callback, in the
  order of the source; all three run (and remove what they find) before any result
  is looked at:
  \<^item> \<open>const req_ack = getRequest(CMD.AUTH_ACK, uuid)\<close>
  \<^item> \<open>const req_nack = getRequest(CMD.AUTH_NACK, uuid)\<close>
  \<^item> \<open>const req_err = getRequest(CMD.AUTH_ERR, uuid)\<close>
\<close>

definition poll_terminal ::
  "string \<Rightarrow> string \<Rightarrow> string \<Rightarrow> int \<Rightarrow> int \<Rightarrow> int \<Rightarrow> string option \<Rightarrow> message list
     \<Rightarrow> message option \<times> message option \<times> message option \<times> message list" where
  "poll_terminal ack nack err t1 t2 t3 u rs =
     (case getRequest t1 ack u rs of (req_ack, rs1) \<Rightarrow>
      case getRequest t2 nack u rs1 of (req_nack, rs2) \<Rightarrow>
      case getRequest t3 err u rs2 of (req_err, rs3) \<Rightarrow>
        (req_ack, req_nack, req_err, rs3))"

section \<open>authenticate\<close>

text \<open>\<open>const auth_key = auth.key || uuidv4()\<close>, with \<open>fresh\<close> for what \<open>uuidv4()\<close>
  would give.\<close>

definition auth_key_of :: "jsval \<Rightarrow> string \<Rightarrow> jsval" where
  "auth_key_of auth fresh =
     (if truthy (get_prop auth ''key'') then get_prop auth ''key'' else JStr fresh)"

text \<open>
  The executor up to \<open>setInterval\<close>. \<open>connected\<close> is what \<open>await isConnected()\<close>
  gives, \<open>now\<close> is \<open>Date.now()\<close>. The result is the exception thrown (if any), the
  flow and the module's state. An encryption that throws ends the executor like a
  failed \<open>assert\<close>: before \<open>send\<close> and \<open>setInterval\<close>.
\<close>

definition authenticate ::
  "codec \<Rightarrow> bool \<Rightarrow> string \<Rightarrow> int \<Rightarrow> jsval \<Rightarrow> jsval \<Rightarrow> jsval \<Rightarrow> bool \<Rightarrow> world
     \<Rightarrow> exn option \<times> flow \<times> world" where
  "authenticate c connected fresh now auth app_data challenge_data cbWait w =
     (if \<not> (truthy auth \<and> truthy (get_prop auth ''username'')
             \<and> is_string (get_prop auth ''username'')) then
        (Some (AssertionError ''missing or invalid auth.username''), never_started auth cbWait, w)
      else if \<not> (truthy app_data \<and> truthy (get_prop app_data ''name'')
             \<and> is_string (get_prop app_data ''name'')) then
        (Some (AssertionError ''missing or invalid app_data.name''), never_started auth cbWait, w)
      else if \<not> (truthy challenge_data \<and> truthy (get_prop challenge_data ''key_type'')
             \<and> is_string (get_prop challenge_data ''key_type'')) then
        (Some (AssertionError ''missing or invalid challenge_data.key_type''),
         never_started auth cbWait, w)
      else if \<not> (truthy challenge_data \<and> truthy (get_prop challenge_data ''challenge'')
             \<and> is_string (get_prop challenge_data ''challenge'')) then
        (Some (AssertionError ''missing or invalid challenge_data.challenge''),
         never_started auth cbWait, w)
      else if \<not> connected then
        (Some (AssertionError ''not connected to server''), never_started auth cbWait, w)
      else
        let auth_key = auth_key_of auth fresh
        in case aes_encrypt c
                  (JStr (json_stringify c
                     (JObj [(''token'', get_prop auth ''token''), (''app'', app_data),
                            (''challenge'', challenge_data)])))
                  auth_key of
             None \<Rightarrow> (Some EncryptError, never_started auth cbWait, w)
           | Some ciphertext \<Rightarrow>
               let payload = JObj [(''cmd'', JStr AUTH_REQ),
                                   (''account'', get_prop auth ''username''),
                                   (''token'', get_prop auth ''token''), (''data'', JStr ciphertext)]
               in if truthy (auth_key_secret w) then
                    (case aes_encrypt c auth_key (auth_key_secret w) of
                       None \<Rightarrow> (Some EncryptError, never_started auth cbWait, w)
                     | Some k \<Rightarrow>
                         (None, started auth auth_key cbWait now w,
                          send (json_stringify c (set_prop payload ''auth_key'' (JStr k))) w))
                  else
                    (None, started auth auth_key cbWait now w,
                     send (json_stringify c payload) w))"

text \<open>The five assertions of \<open>authenticate\<close>, together.\<close>

definition authenticate_asserts :: "jsval \<Rightarrow> jsval \<Rightarrow> jsval \<Rightarrow> bool \<Rightarrow> bool" where
  "authenticate_asserts auth app_data challenge_data connected =
     (truthy auth \<and> truthy (get_prop auth ''username'') \<and> is_string (get_prop auth ''username'')
      \<and> truthy app_data \<and> truthy (get_prop app_data ''name'')
      \<and> is_string (get_prop app_data ''name'')
      \<and> truthy challenge_data \<and> truthy (get_prop challenge_data ''key_type'')
      \<and> is_string (get_prop challenge_data ''key_type'')
      \<and> truthy (get_prop challenge_data ''challenge'')
      \<and> is_string (get_prop challenge_data ''challenge'')
      \<and> connected)"

text \<open>
  The body of \<open>if(req_ack)\<close>, all of it inside \<open>try\<close>: decrypt and parse; then
  \<open>clearInterval(wait)\<close>; then the reads \<open>req_ack.data.token\<close> and
  \<open>req_ack.data.expire\<close>, which throw (and are caught) when the payload parsed to
  \<open>null\<close>; then \<open>resolve(req_ack)\<close>.
\<close>

definition authenticate_ack :: "codec \<Rightarrow> message \<Rightarrow> flow \<Rightarrow> flow" where
  "authenticate_ack c req_ack st =
     (case aes_decrypt c (data req_ack) (f_auth_key st) of
        None \<Rightarrow> st
      | Some s \<Rightarrow>
          (case json_parse c s of
             None \<Rightarrow> st
           | Some d \<Rightarrow>
               let req_ack1 = req_ack\<lparr>data := d\<rparr>;
                   st1 = clearInterval st
               in if d = JNull \<or> d = JUndefined then st1
                  else resolve req_ack1
                         (st1\<lparr>f_auth :=
                            set_prop
                              (set_prop (set_prop (f_auth st1) ''token'' (get_prop d ''token''))
                                 ''expire'' (get_prop d ''expire''))
                              ''key'' (f_auth_key st1)\<rparr>)))"

text \<open>
  One run of the interval callback. \<open>t1\<close>, \<open>t2\<close>, \<open>t3\<close> are the values of
  \<open>Date.now()\<close> in the calls of \<open>getRequest\<close>, \<open>t4\<close> the one in the final check.
  The comparison of \<open>uuid\<close> with the decrypted \<open>auth_nack\<close> payload is outside any
  \<open>try\<close>: when decryption throws, the callback ends there.
\<close>

definition authenticate_tick ::
  "codec \<Rightarrow> int \<Rightarrow> int \<Rightarrow> int \<Rightarrow> int \<Rightarrow> flow \<times> message list
     \<Rightarrow> exn option \<times> flow \<times> message list" where
  "authenticate_tick c t1 t2 t3 t4 = (\<lambda>(st, rs).
     if \<not> truthy_str (f_uuid st) then
       (case getRequest t1 AUTH_WAIT None rs of
          (None, rs1) \<Rightarrow> (None, check_expired t4 st, rs1)
        | (Some req, rs1) \<Rightarrow>
            let req1 = req\<lparr>key := f_auth_key st\<rparr>;
                st1 = st\<lparr>f_uuid := uuid req, f_expire := expire req\<rparr>;
                st2 = (if f_cb st then st1\<lparr>f_cbWait := f_cbWait st1 @ [req1]\<rparr> else st1)
            in (None, check_expired t4 st2, rs1))
     else
       (case poll_terminal AUTH_ACK AUTH_NACK AUTH_ERR t1 t2 t3 (f_uuid st) rs of
          (req_ack, req_nack, req_err, rs3) \<Rightarrow>
          (case req_ack of
             Some a \<Rightarrow> (None, check_expired t4 (authenticate_ack c a st), rs3)
           | None \<Rightarrow>
               (case req_nack of
                  Some n \<Rightarrow>
                    (case aes_decrypt c (data n) (f_auth_key st) of
                       None \<Rightarrow> (Some DecryptError, st, rs3)
                     | Some s \<Rightarrow>
                         (None,
                          check_expired t4
                            (if f_uuid st = Some s then reject (RejMessage n) st else st),
                          rs3))
                | None \<Rightarrow>
                    (case req_err of
                       Some e \<Rightarrow> (None, check_expired t4 (reject (RejMessage e) st), rs3)
                     | None \<Rightarrow> (None, check_expired t4 st, rs3))))))"

section \<open>broadcast\<close>

definition broadcast ::
  "codec \<Rightarrow> bool \<Rightarrow> int \<Rightarrow> jsval \<Rightarrow> jsval \<Rightarrow> jsval \<Rightarrow> bool \<Rightarrow> world
     \<Rightarrow> exn option \<times> flow \<times> world" where
  "broadcast c connected now auth key_type ops cbWait w =
     (if \<not> truthy auth then
        (Some (AssertionError ''missing auth''), never_started auth cbWait, w)
      else if \<not> (truthy (get_prop auth ''username'')
             \<and> is_string (get_prop auth ''username'')) then
        (Some (AssertionError ''missing or invalid username''), never_started auth cbWait, w)
      else if \<not> (truthy (get_prop auth ''token'') \<and> is_string (get_prop auth ''token'')) then
        (Some (AssertionError ''missing or invalid token''), never_started auth cbWait, w)
      else if \<not> (truthy (get_prop auth ''key'') \<and> is_string (get_prop auth ''key'')) then
        (Some (AssertionError ''missing or invalid encryption key''),
         never_started auth cbWait, w)
      else if \<not> (truthy ops \<and> is_array ops \<and> array_length ops > 0) then
        (Some (AssertionError ''missing or invalid ops''), never_started auth cbWait, w)
      else if \<not> connected then
        (Some (AssertionError ''not connected to server''), never_started auth cbWait, w)
      else
        case aes_encrypt c
               (JStr (json_stringify c
                  (JObj [(''key_type'', key_type), (''ops'', ops),
                         (''broadcast'', JBool True)])))
               (get_prop auth ''key'') of
          None \<Rightarrow> (Some EncryptError, never_started auth cbWait, w)
        | Some ciphertext \<Rightarrow>
            let payload = JObj [(''cmd'', JStr SIGN_REQ),
                                (''account'', get_prop auth ''username''),
                                (''token'', get_prop auth ''token''), (''data'', JStr ciphertext)]
            in (None, started auth JUndefined cbWait now w, send (json_stringify c payload) w))"

text \<open>The interval callback of \<open>broadcast\<close>. The \<open>sign_ack\<close> payload is not
  decrypted. In the \<open>sign_err\<close> branch \<open>clearInterval(wait)\<close> comes before the
  decryption of \<open>req_err.error\<close>, which is outside any \<open>try\<close>.\<close>

definition broadcast_tick ::
  "codec \<Rightarrow> int \<Rightarrow> int \<Rightarrow> int \<Rightarrow> int \<Rightarrow> flow \<times> message list
     \<Rightarrow> exn option \<times> flow \<times> message list" where
  "broadcast_tick c t1 t2 t3 t4 = (\<lambda>(st, rs).
     if \<not> truthy_str (f_uuid st) then
       (case getRequest t1 SIGN_WAIT None rs of
          (None, rs1) \<Rightarrow> (None, check_expired t4 st, rs1)
        | (Some req, rs1) \<Rightarrow>
            let st1 = st\<lparr>f_uuid := uuid req, f_expire := expire req\<rparr>;
                st2 = (if f_cb st then st1\<lparr>f_cbWait := f_cbWait st1 @ [req]\<rparr> else st1)
            in (None, check_expired t4 st2, rs1))
     else
       (case poll_terminal SIGN_ACK SIGN_NACK SIGN_ERR t1 t2 t3 (f_uuid st) rs of
          (req_ack, req_nack, req_err, rs3) \<Rightarrow>
          (case req_ack of
             Some a \<Rightarrow> (None, check_expired t4 (resolve a (clearInterval st)), rs3)
           | None \<Rightarrow>
               (case req_nack of
                  Some n \<Rightarrow>
                    (None, check_expired t4 (reject (RejMessage n) (clearInterval st)), rs3)
                | None \<Rightarrow>
                    (case req_err of
                       Some e \<Rightarrow>
                         (case aes_decrypt c (error e) (get_prop (f_auth st) ''key'') of
                            None \<Rightarrow> (Some DecryptError, clearInterval st, rs3)
                          | Some s \<Rightarrow>
                              (None,
                               check_expired t4 (reject (RejError s) (clearInterval st)),
                               rs3))
                     | None \<Rightarrow> (None, check_expired t4 st, rs3))))))"

section \<open>challenge\<close>

definition challenge ::
  "codec \<Rightarrow> bool \<Rightarrow> int \<Rightarrow> jsval \<Rightarrow> jsval \<Rightarrow> bool \<Rightarrow> world
     \<Rightarrow> exn option \<times> flow \<times> world" where
  "challenge c connected now auth challenge_data cbWait w =
     (if \<not> truthy auth then
        (Some (AssertionError ''missing auth''), never_started auth cbWait, w)
      else if \<not> (truthy (get_prop auth ''username'')
             \<and> is_string (get_prop auth ''username'')) then
        (Some (AssertionError ''missing or invalid username''), never_started auth cbWait, w)
      else if \<not> (truthy (get_prop auth ''token'') \<and> is_string (get_prop auth ''token'')) then
        (Some (AssertionError ''missing or invalid token''), never_started auth cbWait, w)
      else if \<not> (truthy (get_prop auth ''key'') \<and> is_string (get_prop auth ''key'')) then
        (Some (AssertionError ''missing or invalid encryption key''),
         never_started auth cbWait, w)
      else if \<not> (truthy challenge_data \<and> truthy (get_prop challenge_data ''key_type'')
             \<and> is_string (get_prop challenge_data ''key_type'')) then
        (Some (AssertionError ''missing or invalid challenge_data.key_type''),
         never_started auth cbWait, w)
      else if \<not> (truthy challenge_data \<and> truthy (get_prop challenge_data ''challenge'')
             \<and> is_string (get_prop challenge_data ''challenge'')) then
        (Some (AssertionError ''missing or invalid challenge_data.challenge''),
         never_started auth cbWait, w)
      else if \<not> connected then
        (Some (AssertionError ''not connected to server''), never_started auth cbWait, w)
      else
        case aes_encrypt c (JStr (json_stringify c challenge_data)) (get_prop auth ''key'') of
          None \<Rightarrow> (Some EncryptError, never_started auth cbWait, w)
        | Some ciphertext \<Rightarrow>
            let payload = JObj [(''cmd'', JStr CHALLENGE_REQ),
                                (''account'', get_prop auth ''username''),
                                (''token'', get_prop auth ''token''), (''data'', JStr ciphertext)]
            in (None, started auth JUndefined cbWait now w, send (json_stringify c payload) w))"

text \<open>The body of \<open>if(req_ack)\<close> in \<open>challenge\<close>, inside \<open>try\<close>: decrypt and parse,
  \<open>clearInterval(wait)\<close>, \<open>resolve(req_ack)\<close>.\<close>

definition challenge_ack :: "codec \<Rightarrow> message \<Rightarrow> flow \<Rightarrow> flow" where
  "challenge_ack c req_ack st =
     (case aes_decrypt c (data req_ack) (get_prop (f_auth st) ''key'') of
        None \<Rightarrow> st
      | Some s \<Rightarrow>
          (case json_parse c s of
             None \<Rightarrow> st
           | Some d \<Rightarrow> resolve (req_ack\<lparr>data := d\<rparr>) (clearInterval st)))"

definition challenge_tick ::
  "codec \<Rightarrow> int \<Rightarrow> int \<Rightarrow> int \<Rightarrow> int \<Rightarrow> flow \<times> message list
     \<Rightarrow> exn option \<times> flow \<times> message list" where
  "challenge_tick c t1 t2 t3 t4 = (\<lambda>(st, rs).
     if \<not> truthy_str (f_uuid st) then
       (case getRequest t1 CHALLENGE_WAIT None rs of
          (None, rs1) \<Rightarrow> (None, check_expired t4 st, rs1)
        | (Some req, rs1) \<Rightarrow>
            let st1 = st\<lparr>f_uuid := uuid req, f_expire := expire req\<rparr>;
                st2 = (if f_cb st then st1\<lparr>f_cbWait := f_cbWait st1 @ [req]\<rparr> else st1)
            in (None, check_expired t4 st2, rs1))
     else
       (case poll_terminal CHALLENGE_ACK CHALLENGE_NACK CHALLENGE_ERR t1 t2 t3 (f_uuid st) rs of
          (req_ack, req_nack, req_err, rs3) \<Rightarrow>
          (case req_ack of
             Some a \<Rightarrow> (None, check_expired t4 (challenge_ack c a st), rs3)
           | None \<Rightarrow>
               (case req_nack of
                  Some n \<Rightarrow>
                    (None, check_expired t4 (reject (RejMessage n) (clearInterval st)), rs3)
                | None \<Rightarrow>
                    (case req_err of
                       Some e \<Rightarrow>
                         (case aes_decrypt c (error e) (get_prop (f_auth st) ''key'') of
                            None \<Rightarrow> (Some DecryptError, clearInterval st, rs3)
                          | Some s \<Rightarrow>
                              (None,
                               check_expired t4 (reject (RejError s) (clearInterval st)),
                               rs3))
                     | None \<Rightarrow> (None, check_expired t4 st, rs3))))))"

text \<open>An interval that was cleared runs its callback no more.\<close>

definition fire ::
  "(flow \<times> message list \<Rightarrow> exn option \<times> flow \<times> message list) \<Rightarrow> flow \<times> message list
     \<Rightarrow> exn option \<times> flow \<times> message list" where
  "fire tick s = (if f_wait (fst s) then tick s else (None, fst s, snd s))"

section \<open>Sample data\<close>

definition sample_msg :: "string \<Rightarrow> string option \<Rightarrow> int option \<Rightarrow> string \<Rightarrow> message" where
  "sample_msg k u e d =
     \<lparr>cmd = k, uuid = u, expire = e, data = JStr d, error = JUndefined,
      key = JUndefined, timeout = None\<rparr>"

definition sample_world :: "message list \<Rightarrow> world" where
  "sample_world rs =
     \<lparr>requests = rs, sent = [], HAS_timeout = Some 60000, auth_key_secret = JUndefined\<rparr>"

definition stale_ack :: message where
  "stale_ack = sample_msg AUTH_ACK (Some ''u1'') (Some 0) ''payload''"

definition live_ack :: message where
  "live_ack = sample_msg AUTH_ACK (Some ''u1'') (Some 2000) ''payload''"

definition old_ack :: message where
  "old_ack = sample_msg AUTH_ACK (Some ''u1'') (Some 500) ''old''"

definition earlier_ack :: message where
  "earlier_ack = sample_msg AUTH_ACK (Some ''u1'') None ''first''"

definition dup_a :: message where
  "dup_a = sample_msg AUTH_ACK (Some ''u1'') None ''second''"

definition dup_b :: message where
  "dup_b = sample_msg AUTH_ACK (Some ''u1'') None ''third''"

definition wait_u1 :: message where
  "wait_u1 = sample_msg AUTH_WAIT (Some ''u1'') (Some 2000) []"

definition wait_u2 :: message where
  "wait_u2 = sample_msg AUTH_WAIT (Some ''u2'') (Some 3000) []"

text \<open>A stand-in for the collaborators, for evaluating the flows on concrete
  inputs: encryption is the identity under a string key and throws under any other
  key, decryption is the identity under the key \<open>k1\<close> and throws under any other key
  (or on the text \<open>garbage\<close>), and the parser knows two texts.\<close>

definition sample_codec :: codec where
  "sample_codec =
     \<lparr>aes_encrypt = (\<lambda>p k. case k of
                        JStr s \<Rightarrow> (case p of JStr t \<Rightarrow> Some t | _ \<Rightarrow> Some [])
                      | _ \<Rightarrow> None),
      aes_decrypt = (\<lambda>d k. case d of
                        JStr s \<Rightarrow> (if k = JStr ''k1'' \<and> s \<noteq> ''garbage'' then Some s else None)
                      | _ \<Rightarrow> None),
      json_parse = (\<lambda>s. if s = ''{}'' then Some (JObj [])
                         else if s = ''null'' then Some JNull else None),
      json_stringify = (\<lambda>v. ''{}'')\<rparr>"

definition alice :: jsval where
  "alice = JObj [(''username'', JStr ''alice''), (''token'', JStr ''T0''), (''key'', JStr ''k1'')]"


definition confirmed_flow :: "int option \<Rightarrow> flow" where
  "confirmed_flow e =
     \<lparr>f_uuid = Some ''u1'', f_expire = e, f_wait = True, f_promise = Pending, f_cbWait = [],
      f_auth = alice, f_auth_key = JStr ''k1'', f_cb = True\<rparr>"

definition sign_ack_u1 :: message where
  "sign_ack_u1 = sample_msg SIGN_ACK (Some ''u1'') None ''signed''"

definition sign_nack_u1 :: message where
  "sign_nack_u1 = sample_msg SIGN_NACK (Some ''u1'') None ''u1''"

definition auth_ack_ok :: message where
  "auth_ack_ok = sample_msg AUTH_ACK (Some ''u1'') None ''{}''"

definition auth_nack_good :: message where
  "auth_nack_good = sample_msg AUTH_NACK (Some ''u1'') None ''u1''"

definition auth_nack_forged :: message where
  "auth_nack_forged = sample_msg AUTH_NACK (Some ''u1'') None ''other''"

definition sign_nack_forged :: message where
  "sign_nack_forged = sample_msg SIGN_NACK (Some ''u1'') None ''garbage''"

definition auth_ack_garbled :: message where
  "auth_ack_garbled = sample_msg AUTH_ACK (Some ''u1'') None ''garbage''"

definition challenge_ack_unparsable :: message where
  "challenge_ack_unparsable = sample_msg CHALLENGE_ACK (Some ''u1'') None ''not json''"

definition sign_ack_garbled :: message where
  "sign_ack_garbled = sample_msg SIGN_ACK (Some ''u1'') None ''garbage''"


definition bob :: jsval where
  "bob = JObj [(''username'', JStr ''bob'')]"

definition my_app :: jsval where
  "my_app = JObj [(''name'', JStr ''my app'')]"

definition my_challenge :: jsval where
  "my_challenge = JObj [(''key_type'', JStr ''posting''), (''challenge'', JStr ''hello'')]"

definition unstamped_wait :: message where
  "unstamped_wait = sample_msg AUTH_WAIT (Some ''u3'') None []"

definition zero_wait :: message where
  "zero_wait = sample_msg AUTH_WAIT (Some ''u4'') (Some 0) []"



definition carol :: jsval where
  "carol = JObj [(''username'', JStr ''carol''), (''key'', JNum 5)]"

section \<open>Properties of the store\<close>

lemma kinds_simps:
  "AUTH_WAIT \<noteq> []" "AUTH_ACK \<noteq> []" "AUTH_WAIT \<noteq> CONNECTED" "AUTH_ACK \<noteq> CONNECTED"
  "AUTH_WAIT \<noteq> AUTH_ACK" "AUTH_ACK \<noteq> AUTH_WAIT"
  "AUTH_ACK \<in> set stored_kinds" "AUTH_WAIT \<in> set stored_kinds"
  by (simp_all add: stored_kinds_def AUTH_WAIT_def AUTH_ACK_def CONNECTED_def)

lemma stored_kinds_nonempty: "k \<in> set stored_kinds \<Longrightarrow> k \<noteq> [] \<and> k \<noteq> CONNECTED"
  unfolding stored_kinds_def CONNECTED_def AUTH_WAIT_def AUTH_ACK_def AUTH_NACK_def
    AUTH_ERR_def SIGN_WAIT_def SIGN_ACK_def SIGN_NACK_def SIGN_ERR_def CHALLENGE_WAIT_def
    CHALLENGE_ACK_def CHALLENGE_NACK_def CHALLENGE_ERR_def ERROR_def
  by auto

lemma onmessage_stored:
  "cmd m \<in> set stored_kinds \<Longrightarrow> onmessage m w = w\<lparr>requests := requests w @ [m]\<rparr>"
  using stored_kinds_nonempty [of "cmd m"] by (simp add: onmessage_def)

lemma getRequest_None:
  "find (\<lambda>x. cmd x = ty \<and> (if truthy_str uid then uuid x = uid else True))
     (filter (\<lambda>x. \<not> truthy_num (expire x) \<or> num_ge (expire x) now) rs) = None
   \<Longrightarrow> getRequest now ty uid rs =
       (None, filter (\<lambda>x. \<not> truthy_num (expire x) \<or> num_ge (expire x) now) rs)"
  by (simp add: getRequest_def)

lemma getRequest_Some:
  "find (\<lambda>x. cmd x = ty \<and> (if truthy_str uid then uuid x = uid else True))
     (filter (\<lambda>x. \<not> truthy_num (expire x) \<or> num_ge (expire x) now) rs) = Some r
   \<Longrightarrow> getRequest now ty uid rs =
       (Some r,
        filter (\<lambda>x. \<not> (cmd x = ty \<and> (if truthy_str uid then uuid x = uuid r else True)))
          (filter (\<lambda>x. \<not> truthy_num (expire x) \<or> num_ge (expire x) now) rs))"
  by (simp add: getRequest_def)

lemma getRequest_found:
  assumes "fst (getRequest now ty uid rs) = Some r"
  shows "r \<in> set rs"
    and "\<not> truthy_num (expire r) \<or> num_ge (expire r) now"
    and "cmd r = ty"
    and "truthy_str uid \<Longrightarrow> uuid r = uid"
    and "snd (getRequest now ty uid rs) =
           filter (\<lambda>x. \<not> (cmd x = ty \<and> (if truthy_str uid then uuid x = uuid r else True)))
             (filter (\<lambda>x. \<not> truthy_num (expire x) \<or> num_ge (expire x) now) rs)"
proof -
  let ?live = "\<lambda>x. \<not> truthy_num (expire x) \<or> num_ge (expire x) now"
  let ?hit = "\<lambda>x. cmd x = ty \<and> (if truthy_str uid then uuid x = uid else True)"
  have f: "find ?hit (filter ?live rs) = Some r"
    using assms by (cases "find ?hit (filter ?live rs)") (simp_all add: getRequest_def)
  then obtain i where i: "i < length (filter ?live rs)" "?hit (filter ?live rs ! i)"
    "r = filter ?live rs ! i"
    unfolding find_Some_iff by blast
  then have mem: "r \<in> set (filter ?live rs)"
    using nth_mem by blast
  show "r \<in> set rs" using mem by simp
  show "\<not> truthy_num (expire r) \<or> num_ge (expire r) now" using mem by simp
  show "cmd r = ty" using i by simp
  show "truthy_str uid \<Longrightarrow> uuid r = uid" using i by simp
  show "snd (getRequest now ty uid rs) =
           filter (\<lambda>x. \<not> (cmd x = ty \<and> (if truthy_str uid then uuid x = uuid r else True)))
             (filter ?live rs)"
    using getRequest_Some [OF f] by simp
qed

lemma getRequest_subset: "set (snd (getRequest now ty uid rs)) \<subseteq> set rs"
  by (auto simp: getRequest_def Let_def split: option.splits)

lemma getRequest_no_match_left:
  assumes "x \<in> set (snd (getRequest now ty uid rs))" and "cmd x = ty"
    and "truthy_str uid \<longrightarrow> uuid x = uid"
  shows False
proof (cases "fst (getRequest now ty uid rs)")
  case None
  let ?live = "\<lambda>x. \<not> truthy_num (expire x) \<or> num_ge (expire x) now"
  let ?hit = "\<lambda>x. cmd x = ty \<and> (if truthy_str uid then uuid x = uid else True)"
  have f: "find ?hit (filter ?live rs) = None"
    using None by (cases "find ?hit (filter ?live rs)") (simp_all add: getRequest_def)
  then have "snd (getRequest now ty uid rs) = filter ?live rs"
    by (simp add: getRequest_None)
  with assms(1) have "x \<in> set (filter ?live rs)" by simp
  moreover have "?hit x" using assms(2,3) by simp
  ultimately show False using f unfolding find_None_iff by blast
next
  case (Some r)
  from getRequest_found(4,5) [OF Some] assms show False
    by (auto split: if_splits)
qed

lemma getRequest_again_None:
  "fst (getRequest now' ty uid (snd (getRequest now ty uid rs))) = None"
proof (cases "fst (getRequest now' ty uid (snd (getRequest now ty uid rs)))")
  case None
  then show ?thesis .
next
  case (Some r)
  from getRequest_found(1,3,4) [OF Some]
  have "r \<in> set (snd (getRequest now ty uid rs))" "cmd r = ty"
    "truthy_str uid \<longrightarrow> uuid r = uid"
    by auto
  then show ?thesis using getRequest_no_match_left by blast
qed

lemma find_append_None:
  "find P xs = None \<Longrightarrow> find P (xs @ ys) = find P ys"
  by (induction xs) (auto split: if_splits)

lemma delivered_two:
  assumes "cmd m1 \<in> set stored_kinds" "cmd m2 \<in> set stored_kinds"
  shows "requests (onmessage m2 (onmessage m1 w)) = requests w @ [m1, m2]"
  using assms by (simp add: onmessage_stored)

lemma getRequest_first_delivered:
  assumes live: "\<not> truthy_num (expire m1) \<or> num_ge (expire m1) now"
    and none: "fst (getRequest now (cmd m1) (uuid m1) rs) = None"
  shows "fst (getRequest now (cmd m1) (uuid m1) (rs @ m1 # ms)) = Some m1"
proof -
  let ?live = "\<lambda>x. \<not> truthy_num (expire x) \<or> num_ge (expire x) now"
  let ?hit = "\<lambda>x. cmd x = cmd m1 \<and> (if truthy_str (uuid m1) then uuid x = uuid m1 else True)"
  have f: "find ?hit (filter ?live rs) = None"
    using none by (cases "find ?hit (filter ?live rs)") (simp_all add: getRequest_def)
  have "find ?hit (filter ?live (rs @ m1 # ms)) = find ?hit (m1 # filter ?live ms)"
    using live f by (simp add: find_append_None)
  also have "\<dots> = Some m1" by simp
  finally show ?thesis by (simp add: getRequest_def)
qed

lemma getRequest_left_live:
  "x \<in> set (snd (getRequest now ty uid rs)) \<Longrightarrow>
     \<not> truthy_num (expire x) \<or> num_ge (expire x) now"
  by (auto simp: getRequest_def Let_def split: option.splits)

subsection \<open>Eviction of expired entries\<close>

lemma getRequest_keeps_or_removes:
  assumes "x \<in> set rs" and "\<not> truthy_num (expire x) \<or> num_ge (expire x) now"
  shows "x \<in> set (snd (getRequest now ty uid rs))
     \<or> (cmd x = ty \<and> (truthy_str uid \<longrightarrow> uuid x = uid) \<and> fst (getRequest now ty uid rs) \<noteq> None)"
proof (cases "fst (getRequest now ty uid rs)")
  case None
  let ?live = "\<lambda>x. \<not> truthy_num (expire x) \<or> num_ge (expire x) now"
  let ?hit = "\<lambda>x. cmd x = ty \<and> (if truthy_str uid then uuid x = uid else True)"
  have f: "find ?hit (filter ?live rs) = None"
    using None by (cases "find ?hit (filter ?live rs)") (simp_all add: getRequest_def)
  then have "snd (getRequest now ty uid rs) = filter ?live rs"
    by (simp add: getRequest_None)
  then show ?thesis using assms by simp
next
  case (Some r)
  from getRequest_found(4,5) [OF Some] assms Some show ?thesis
    by (auto split: if_splits)
qed

lemma stale_ack_returned:
  "getRequest 1000 AUTH_ACK (Some ''u1'') [stale_ack] = (Some stale_ack, [])"
  by (simp add: getRequest_def stale_ack_def sample_msg_def truthy_num_def truthy_str_def)

text \<open>
  Claim C3, as stated, fails: an entry whose \<open>expire\<close> is \<open>0\<close> passes
  \<open>!o.expire\<close>, so it is kept and returned at time 1000 although the instant 0 is in
  the past.
\<close>

theorem getRequest_returns_zero_expire:
  "fst (getRequest 1000 AUTH_ACK (Some ''u1'') [stale_ack]) = Some stale_ack
   \<and> expire stale_ack = Some 0 \<and> (0::int) < 1000"
  unfolding stale_ack_returned by (simp add: stale_ack_def sample_msg_def)

text \<open>
  Claim C3, amended: for every state of the store and every query, the message
  returned (if any) is one of the stored entries and its \<open>expire\<close> is absent, zero or
  not less than the time of the query; the same holds of every entry the query
  leaves in the store; every entry whose \<open>expire\<close> is a non-zero instant before
  the time of the query is evicted: it is neither returned nor left in the store;
  and an entry whose \<open>expire\<close> is absent or zero is never evicted: the query leaves
  it in the store unless the query found a match and the entry is of the queried
  kind (and correlation id, when one is given), in which case it is removed with
  the match.
\<close>

theorem getRequest_evicts_expired:
  "(\<forall>r. fst (getRequest now ty uid rs) = Some r \<longrightarrow>
       r \<in> set rs
       \<and> (expire r = None \<or> expire r = Some 0 \<or> (\<exists>e. expire r = Some e \<and> now \<le> e)))
   \<and> (\<forall>x \<in> set (snd (getRequest now ty uid rs)).
         expire x = None \<or> expire x = Some 0 \<or> (\<exists>e. expire x = Some e \<and> now \<le> e))
   \<and> (\<forall>x \<in> set rs. (\<exists>e. expire x = Some e \<and> e \<noteq> 0 \<and> e < now) \<longrightarrow>
         x \<notin> set (snd (getRequest now ty uid rs)) \<and> fst (getRequest now ty uid rs) \<noteq> Some x)
   \<and> (\<forall>x \<in> set rs. expire x = None \<or> expire x = Some 0 \<longrightarrow>
         x \<in> set (snd (getRequest now ty uid rs))
         \<or> (cmd x = ty \<and> (truthy_str uid \<longrightarrow> uuid x = uid)
             \<and> fst (getRequest now ty uid rs) \<noteq> None))"
proof -
  have live: "\<And>x. \<not> truthy_num (expire x) \<or> num_ge (expire x) now \<Longrightarrow>
      expire x = None \<or> expire x = Some 0 \<or> (\<exists>e. expire x = Some e \<and> now \<le> e)"
    by (auto simp: truthy_num_def num_ge_def split: option.splits)
  have dead: "\<And>x e. expire x = Some e \<Longrightarrow> e \<noteq> 0 \<Longrightarrow> e < now \<Longrightarrow>
      \<not> (\<not> truthy_num (expire x) \<or> num_ge (expire x) now)"
    by (auto simp: truthy_num_def num_ge_def)
  have falsy: "\<And>x. expire x = None \<or> expire x = Some 0 \<Longrightarrow> \<not> truthy_num (expire x)"
    by (auto simp: truthy_num_def)
  have a: "\<forall>r. fst (getRequest now ty uid rs) = Some r \<longrightarrow>
       r \<in> set rs
       \<and> (expire r = None \<or> expire r = Some 0 \<or> (\<exists>e. expire r = Some e \<and> now \<le> e))"
    using getRequest_found(1,2) live by blast
  have b: "\<forall>x \<in> set (snd (getRequest now ty uid rs)).
         expire x = None \<or> expire x = Some 0 \<or> (\<exists>e. expire x = Some e \<and> now \<le> e)"
    using getRequest_left_live live by blast
  have c: "\<forall>x \<in> set rs. (\<exists>e. expire x = Some e \<and> e \<noteq> 0 \<and> e < now) \<longrightarrow>
         x \<notin> set (snd (getRequest now ty uid rs)) \<and> fst (getRequest now ty uid rs) \<noteq> Some x"
    using getRequest_left_live dead getRequest_found(2) by blast
  have d: "\<forall>x \<in> set rs. expire x = None \<or> expire x = Some 0 \<longrightarrow>
         x \<in> set (snd (getRequest now ty uid rs))
         \<or> (cmd x = ty \<and> (truthy_str uid \<longrightarrow> uuid x = uid)
             \<and> fst (getRequest now ty uid rs) \<noteq> None)"
  proof (intro ballI impI)
    fix x assume "x \<in> set rs" and "expire x = None \<or> expire x = Some 0"
    then show "x \<in> set (snd (getRequest now ty uid rs))
         \<or> (cmd x = ty \<and> (truthy_str uid \<longrightarrow> uuid x = uid)
             \<and> fst (getRequest now ty uid rs) \<noteq> None)"
      using getRequest_keeps_or_removes [of x rs now ty uid] falsy [of x] by blast
  qed
  show ?thesis using a b c d by blast
qed

lemma mixed_store_query: "getRequest 1000 AUTH_ACK (Some ''u1'') [old_ack, unstamped_wait, zero_wait, live_ack]
   = (Some live_ack, [unstamped_wait, zero_wait])"
  by (simp add: getRequest_def old_ack_def live_ack_def unstamped_wait_def zero_wait_def
      sample_msg_def truthy_num_def truthy_str_def num_ge_def kinds_simps)

theorem getRequest_evicts_expired_witness:
  "fst (getRequest 1000 AUTH_ACK (Some ''u1'') [old_ack, unstamped_wait, zero_wait, live_ack])
     = Some live_ack
   \<and> expire live_ack = Some 2000
   \<and> old_ack \<notin> set (snd (getRequest 1000 AUTH_ACK (Some ''u1'')
                             [old_ack, unstamped_wait, zero_wait, live_ack]))
   \<and> expire unstamped_wait = None \<and> expire zero_wait = Some 0
   \<and> snd (getRequest 1000 AUTH_ACK (Some ''u1'') [old_ack, unstamped_wait, zero_wait, live_ack])
       = [unstamped_wait, zero_wait]"
  using getRequest_evicts_expired [of 1000 AUTH_ACK "Some ''u1''" "[old_ack, unstamped_wait, zero_wait, live_ack]"]
  unfolding mixed_store_query
  by (simp add: old_ack_def live_ack_def unstamped_wait_def zero_wait_def sample_msg_def)

subsection \<open>Duplicate deliveries\<close>

lemma earlier_entry_query:
  "getRequest 1000 AUTH_ACK (Some ''u1'')
     (requests (onmessage dup_b (onmessage dup_a (sample_world [earlier_ack]))))
   = (Some earlier_ack, [])"
  by (simp add: onmessage_stored kinds_simps getRequest_def sample_world_def earlier_ack_def
      dup_a_def dup_b_def sample_msg_def truthy_num_def truthy_str_def)

text \<open>
  Claim C4, as stated, fails: the store already holds an entry with the pair
  (\<open>auth_ack\<close>, \<open>u1\<close>); two more messages with that pair are delivered; the query
  returns the earlier entry, which is neither of the two.
\<close>

theorem query_returns_earlier_entry:
  "fst (getRequest 1000 AUTH_ACK (Some ''u1'')
          (requests (onmessage dup_b (onmessage dup_a (sample_world [earlier_ack])))))
     = Some earlier_ack
   \<and> earlier_ack \<noteq> dup_a \<and> earlier_ack \<noteq> dup_b
   \<and> cmd dup_a = cmd dup_b \<and> uuid dup_a = uuid dup_b"
  unfolding earlier_entry_query by (simp add: earlier_ack_def dup_a_def dup_b_def sample_msg_def)

text \<open>
  Claim C4, amended: for every store state, after two messages \<open>m1\<close>, \<open>m2\<close> with
  identical kind and correlation id are delivered, one query for that pair leaves
  neither of them in the store, so that a second query for the same pair (at any
  time) returns none. What the query returns is a stored entry of that kind (and of
  that correlation id, when one is given): \<open>m1\<close> whenever \<open>m1\<close> has not expired and
  the store held no match before the two deliveries, otherwise possibly an earlier
  entry.
\<close>

theorem duplicates_coalesced:
  assumes "k \<in> set stored_kinds" and "cmd m1 = k" and "cmd m2 = k"
    and "uuid m1 = u" and "uuid m2 = u"
  shows "m1 \<notin> set (snd (getRequest now k u (requests (onmessage m2 (onmessage m1 w)))))
     \<and> m2 \<notin> set (snd (getRequest now k u (requests (onmessage m2 (onmessage m1 w)))))
     \<and> fst (getRequest now' k u
              (snd (getRequest now k u (requests (onmessage m2 (onmessage m1 w)))))) = None
     \<and> ((\<not> truthy_num (expire m1) \<or> num_ge (expire m1) now)
          \<and> fst (getRequest now k u (requests w)) = None
         \<longrightarrow> fst (getRequest now k u (requests (onmessage m2 (onmessage m1 w)))) = Some m1)
     \<and> (\<forall>r. fst (getRequest now k u (requests (onmessage m2 (onmessage m1 w)))) = Some r
         \<longrightarrow> (r \<in> set (requests w) \<or> r = m1 \<or> r = m2) \<and> cmd r = k
             \<and> (truthy_str u \<longrightarrow> uuid r = u))"
proof -
  let ?rs = "requests (onmessage m2 (onmessage m1 w))"
  have rs: "?rs = requests w @ [m1, m2]"
    using assms(1-3) by (simp add: delivered_two)
  have a: "m1 \<notin> set (snd (getRequest now k u ?rs))"
    using getRequest_no_match_left [of m1 now k u ?rs] assms(2,4) by blast
  have b: "m2 \<notin> set (snd (getRequest now k u ?rs))"
    using getRequest_no_match_left [of m2 now k u ?rs] assms(3,5) by blast
  have c: "fst (getRequest now' k u (snd (getRequest now k u ?rs))) = None"
    by (rule getRequest_again_None)
  have d: "(\<not> truthy_num (expire m1) \<or> num_ge (expire m1) now)
          \<and> fst (getRequest now k u (requests w)) = None
         \<longrightarrow> fst (getRequest now k u ?rs) = Some m1"
    using getRequest_first_delivered [of m1 now "requests w" "[m2]"] assms(2,4) rs by auto
  have e: "\<forall>r. fst (getRequest now k u ?rs) = Some r
         \<longrightarrow> (r \<in> set (requests w) \<or> r = m1 \<or> r = m2) \<and> cmd r = k
             \<and> (truthy_str u \<longrightarrow> uuid r = u)"
  proof (intro allI impI)
    fix r assume r: "fst (getRequest now k u ?rs) = Some r"
    from getRequest_found(1,3,4) [OF r] rs
    show "(r \<in> set (requests w) \<or> r = m1 \<or> r = m2) \<and> cmd r = k
             \<and> (truthy_str u \<longrightarrow> uuid r = u)"
      by auto
  qed
  show ?thesis using a b c d e by blast
qed

lemma duplicates_query:
  "getRequest 1000 AUTH_ACK (Some ''u1'')
     (requests (onmessage dup_b (onmessage dup_a (sample_world [wait_u1]))))
   = (Some dup_a, [wait_u1])"
  by (simp add: onmessage_stored kinds_simps getRequest_def sample_world_def wait_u1_def
      dup_a_def dup_b_def sample_msg_def truthy_num_def truthy_str_def num_ge_def)

theorem duplicates_coalesced_witness:
  "fst (getRequest 1000 AUTH_ACK (Some ''u1'')
          (requests (onmessage dup_b (onmessage dup_a (sample_world [wait_u1]))))) = Some dup_a
   \<and> snd (getRequest 1000 AUTH_ACK (Some ''u1'')
          (requests (onmessage dup_b (onmessage dup_a (sample_world [wait_u1]))))) = [wait_u1]
   \<and> fst (getRequest 1000 AUTH_ACK (Some ''u1'')
          (snd (getRequest 1000 AUTH_ACK (Some ''u1'')
             (requests (onmessage dup_b (onmessage dup_a (sample_world [wait_u1]))))))) = None"
  using duplicates_coalesced
    [of AUTH_ACK dup_a dup_b "Some ''u1''" 1000 "sample_world [wait_u1]" 1000]
  unfolding duplicates_query
  by (simp add: kinds_simps dup_a_def dup_b_def sample_msg_def)

subsection \<open>Queries by kind alone\<close>

text \<open>
  Claim C10: when the store is queried by kind with the correlation id omitted and
  an entry is found, what is left is the unexpired entries of the other kinds:
  every stored entry of the queried kind is gone, whatever its correlation id.
\<close>

theorem kind_only_query_clears_kind:
  assumes "fst (getRequest now ty None rs) = Some r"
  shows "snd (getRequest now ty None rs) =
           filter (\<lambda>x. cmd x \<noteq> ty)
             (filter (\<lambda>x. \<not> truthy_num (expire x) \<or> num_ge (expire x) now) rs)
     \<and> (\<forall>x \<in> set rs. cmd x = ty \<longrightarrow> x \<notin> set (snd (getRequest now ty None rs)))"
  using getRequest_found(5) [OF assms] by (simp add: truthy_str_def)

lemma two_waits_query:
  "getRequest 1000 AUTH_WAIT None [wait_u1, earlier_ack, wait_u2] = (Some wait_u1, [earlier_ack])"
  by (simp add: kinds_simps getRequest_def wait_u1_def wait_u2_def earlier_ack_def
      sample_msg_def truthy_num_def truthy_str_def num_ge_def)

theorem kind_only_query_clears_kind_witness:
  "fst (getRequest 1000 AUTH_WAIT None [wait_u1, earlier_ack, wait_u2]) = Some wait_u1
   \<and> snd (getRequest 1000 AUTH_WAIT None [wait_u1, earlier_ack, wait_u2]) = [earlier_ack]
   \<and> uuid wait_u2 \<noteq> uuid wait_u1
   \<and> wait_u2 \<notin> set (snd (getRequest 1000 AUTH_WAIT None [wait_u1, earlier_ack, wait_u2]))"
  using kind_only_query_clears_kind [of 1000 AUTH_WAIT "[wait_u1, earlier_ack, wait_u2]" wait_u1]
  unfolding two_waits_query
  by (simp add: wait_u1_def wait_u2_def sample_msg_def)

section \<open>Properties of the flows\<close>

subsection \<open>Promises, the final check and sample evaluations\<close>

lemma check_expired_settled:
  "f_promise st \<noteq> Pending \<Longrightarrow> f_promise (check_expired t st) = f_promise st"
  by (simp add: check_expired_def reject_def clearInterval_def)

lemma check_expired_pending:
  "f_promise st = Pending \<Longrightarrow> num_le (f_expire st) t \<Longrightarrow>
     f_promise (check_expired t st) = Rejected (RejError ''expired'')"
  by (simp add: check_expired_def reject_def clearInterval_def)

lemma check_expired_not_due:
  "\<not> num_le (f_expire st) t \<Longrightarrow> check_expired t st = st"
  by (simp add: check_expired_def)

lemma resolve_pending:
  "f_promise st = Pending \<Longrightarrow> f_promise (resolve v st) = Fulfilled v"
  by (simp add: resolve_def)

lemma reject_pending:
  "f_promise st = Pending \<Longrightarrow> f_promise (reject e st) = Rejected e"
  by (simp add: reject_def)

lemma clearInterval_fields:
  "f_promise (clearInterval st) = f_promise st" "f_expire (clearInterval st) = f_expire st"
  "f_uuid (clearInterval st) = f_uuid st" "f_wait (clearInterval st) = False"
  "f_auth (clearInterval st) = f_auth st" "f_auth_key (clearInterval st) = f_auth_key st"
  by (simp_all add: clearInterval_def)


lemma check_expired_promise:
  "f_promise (check_expired t st) = f_promise st
   \<or> f_promise (check_expired t st) = Rejected (RejError ''expired'')"
  by (simp add: check_expired_def reject_def clearInterval_def)

lemma getRequest_removed:
  assumes "fst (getRequest now ty uid rs) = Some r"
  shows "r \<notin> set (snd (getRequest now ty uid rs))"
  using getRequest_no_match_left [of r now ty uid rs] getRequest_found(3,4) [OF assms]
  by blast

lemma poll_terminal_ack_gone:
  assumes "poll_terminal ack nack err t1 t2 t3 u rs = (Some a, qn, qe, rs3)"
  shows "a \<notin> set rs3"
proof -
  obtain rs1 where 1: "getRequest t1 ack u rs = (Some a, rs1)"
    using assms by (auto simp: poll_terminal_def split: prod.splits)
  obtain rs2 where 2: "getRequest t2 nack u rs1 = (qn, rs2)"
    using assms 1 by (auto simp: poll_terminal_def split: prod.splits)
  have 3: "getRequest t3 err u rs2 = (qe, rs3)"
    using assms 1 2 by (auto simp: poll_terminal_def split: prod.splits)
  have "a \<notin> set rs1" using getRequest_removed [of t1 ack u rs a] 1 by simp
  moreover have "set rs2 \<subseteq> set rs1" using getRequest_subset [of t2 nack u rs1] 2 by simp
  moreover have "set rs3 \<subseteq> set rs2" using getRequest_subset [of t3 err u rs2] 3 by simp
  ultimately show ?thesis by blast
qed

lemma poll_terminal_nack_gone:
  assumes "poll_terminal ack nack err t1 t2 t3 u rs = (qa, Some n, qe, rs3)"
  shows "n \<notin> set rs3"
proof -
  obtain rs1 where 1: "getRequest t1 ack u rs = (qa, rs1)"
    using assms by (auto simp: poll_terminal_def split: prod.splits)
  obtain rs2 where 2: "getRequest t2 nack u rs1 = (Some n, rs2)"
    using assms 1 by (auto simp: poll_terminal_def split: prod.splits)
  have 3: "getRequest t3 err u rs2 = (qe, rs3)"
    using assms 1 2 by (auto simp: poll_terminal_def split: prod.splits)
  have "n \<notin> set rs2" using getRequest_removed [of t2 nack u rs1 n] 2 by simp
  moreover have "set rs3 \<subseteq> set rs2" using getRequest_subset [of t3 err u rs2] 3 by simp
  ultimately show ?thesis by blast
qed

lemma confirmed_flow_fields:
  "f_uuid (confirmed_flow e) = Some ''u1''" "f_expire (confirmed_flow e) = e"
  "f_wait (confirmed_flow e) = True" "f_promise (confirmed_flow e) = Pending"
  "f_cbWait (confirmed_flow e) = []" "f_auth (confirmed_flow e) = alice"
  "f_auth_key (confirmed_flow e) = JStr ''k1''" "f_cb (confirmed_flow e) = True"
  by (simp_all add: confirmed_flow_def)

lemma truthy_u1: "truthy_str (Some ''u1'')"
  by (simp add: truthy_str_def)


lemma one_nack_poll:
  "cmd m = nack \<Longrightarrow> uuid m = Some ''u1'' \<Longrightarrow> expire m = None \<Longrightarrow> ack \<noteq> nack \<Longrightarrow> err \<noteq> nack \<Longrightarrow>
   poll_terminal ack nack err t1 t2 t3 (Some ''u1'') [m] = (None, Some m, None, [])"
  by (simp add: poll_terminal_def getRequest_def truthy_num_def truthy_str_def)

lemma one_ack_poll:
  "cmd m = ack \<Longrightarrow> uuid m = Some ''u1'' \<Longrightarrow> expire m = None \<Longrightarrow>
   poll_terminal ack nack err t1 t2 t3 (Some ''u1'') [m] = (Some m, None, None, [])"
  by (simp add: poll_terminal_def getRequest_def truthy_num_def truthy_str_def)

lemma sample_msg_fields:
  "cmd (sample_msg k u e d) = k" "uuid (sample_msg k u e d) = u" "expire (sample_msg k u e d) = e"
  "data (sample_msg k u e d) = JStr d" "error (sample_msg k u e d) = JUndefined"
  by (simp_all add: sample_msg_def)

lemma kinds_distinct:
  "AUTH_ACK \<noteq> AUTH_NACK" "AUTH_ERR \<noteq> AUTH_NACK" "SIGN_ACK \<noteq> SIGN_NACK" "SIGN_ERR \<noteq> SIGN_NACK"
  "CHALLENGE_ACK \<noteq> CHALLENGE_NACK" "CHALLENGE_ERR \<noteq> CHALLENGE_NACK"
  by (simp_all add: AUTH_ACK_def AUTH_NACK_def AUTH_ERR_def SIGN_ACK_def SIGN_NACK_def SIGN_ERR_def
      CHALLENGE_ACK_def CHALLENGE_NACK_def CHALLENGE_ERR_def)

lemma sample_decrypt:
  "aes_decrypt sample_codec (JStr ''u1'') (JStr ''k1'') = Some ''u1''"
  "aes_decrypt sample_codec (JStr ''other'') (JStr ''k1'') = Some ''other''"
  "aes_decrypt sample_codec (JStr ''garbage'') k = None"
  "aes_decrypt sample_codec (JStr ''not json'') (JStr ''k1'') = Some ''not json''"
  "json_parse sample_codec ''not json'' = None"
  by (simp_all add: sample_codec_def)

lemma not_due_2000: "\<not> num_le (Some 2000) 1000"
  by (simp add: num_le_def)

lemma empty_poll:
  "poll_terminal ack nack err t1 t2 t3 u [] = (None, None, None, [])"
  by (simp add: poll_terminal_def getRequest_def)

lemma due_500: "num_le (Some 500) 1000"
  by (simp add: num_le_def)

subsection \<open>A match and the deadline in the same tick\<close>

lemma broadcast_late:
  assumes "truthy_str (f_uuid st)" and "f_promise st = Pending" and "num_le (f_expire st) t4"
  shows "poll_terminal SIGN_ACK SIGN_NACK SIGN_ERR t1 t2 t3 (f_uuid st) rs = (Some a, qn, qe, rs3)
           \<Longrightarrow> f_promise (fst (snd (broadcast_tick c t1 t2 t3 t4 (st, rs)))) = Fulfilled a"
    and "poll_terminal SIGN_ACK SIGN_NACK SIGN_ERR t1 t2 t3 (f_uuid st) rs = (None, Some n, qe, rs3)
           \<Longrightarrow> f_promise (fst (snd (broadcast_tick c t1 t2 t3 t4 (st, rs)))) = Rejected (RejMessage n)"
    and "poll_terminal SIGN_ACK SIGN_NACK SIGN_ERR t1 t2 t3 (f_uuid st) rs = (None, None, Some e, rs3)
           \<Longrightarrow> aes_decrypt c (error e) (get_prop (f_auth st) ''key'') = Some s
           \<Longrightarrow> f_promise (fst (snd (broadcast_tick c t1 t2 t3 t4 (st, rs)))) = Rejected (RejError s)"
    and "poll_terminal SIGN_ACK SIGN_NACK SIGN_ERR t1 t2 t3 (f_uuid st) rs = (None, None, None, rs3)
           \<Longrightarrow> f_promise (fst (snd (broadcast_tick c t1 t2 t3 t4 (st, rs)))) = Rejected (RejError ''expired'')"
  using assms
  by (simp_all add: broadcast_tick_def check_expired_settled check_expired_pending
      resolve_pending reject_pending clearInterval_fields)

lemma challenge_late:
  assumes "truthy_str (f_uuid st)" and "f_promise st = Pending" and "num_le (f_expire st) t4"
  shows "poll_terminal CHALLENGE_ACK CHALLENGE_NACK CHALLENGE_ERR t1 t2 t3 (f_uuid st) rs = (Some a, qn, qe, rs3)
           \<Longrightarrow> aes_decrypt c (data a) (get_prop (f_auth st) ''key'') = Some s \<Longrightarrow> json_parse c s = Some d
           \<Longrightarrow> f_promise (fst (snd (challenge_tick c t1 t2 t3 t4 (st, rs)))) = Fulfilled (a\<lparr>data := d\<rparr>)"
    and "poll_terminal CHALLENGE_ACK CHALLENGE_NACK CHALLENGE_ERR t1 t2 t3 (f_uuid st) rs = (None, Some n, qe, rs3)
           \<Longrightarrow> f_promise (fst (snd (challenge_tick c t1 t2 t3 t4 (st, rs)))) = Rejected (RejMessage n)"
    and "poll_terminal CHALLENGE_ACK CHALLENGE_NACK CHALLENGE_ERR t1 t2 t3 (f_uuid st) rs = (None, None, Some e, rs3)
           \<Longrightarrow> aes_decrypt c (error e) (get_prop (f_auth st) ''key'') = Some s
           \<Longrightarrow> f_promise (fst (snd (challenge_tick c t1 t2 t3 t4 (st, rs)))) = Rejected (RejError s)"
    and "poll_terminal CHALLENGE_ACK CHALLENGE_NACK CHALLENGE_ERR t1 t2 t3 (f_uuid st) rs = (None, None, None, rs3)
           \<Longrightarrow> f_promise (fst (snd (challenge_tick c t1 t2 t3 t4 (st, rs)))) = Rejected (RejError ''expired'')"
  using assms
  by (simp_all add: challenge_tick_def challenge_ack_def check_expired_settled check_expired_pending
      resolve_pending reject_pending clearInterval_fields)

lemma authenticate_late:
  assumes "truthy_str (f_uuid st)" and "f_promise st = Pending" and "num_le (f_expire st) t4"
  shows "poll_terminal AUTH_ACK AUTH_NACK AUTH_ERR t1 t2 t3 (f_uuid st) rs = (Some a, qn, qe, rs3)
           \<Longrightarrow> aes_decrypt c (data a) (f_auth_key st) = Some s \<Longrightarrow> json_parse c s = Some d
           \<Longrightarrow> d \<noteq> JNull \<Longrightarrow> d \<noteq> JUndefined
           \<Longrightarrow> f_promise (fst (snd (authenticate_tick c t1 t2 t3 t4 (st, rs)))) = Fulfilled (a\<lparr>data := d\<rparr>)"
    and "poll_terminal AUTH_ACK AUTH_NACK AUTH_ERR t1 t2 t3 (f_uuid st) rs = (None, Some n, qe, rs3)
           \<Longrightarrow> aes_decrypt c (data n) (f_auth_key st) = f_uuid st
           \<Longrightarrow> f_promise (fst (snd (authenticate_tick c t1 t2 t3 t4 (st, rs)))) = Rejected (RejMessage n)"
    and "poll_terminal AUTH_ACK AUTH_NACK AUTH_ERR t1 t2 t3 (f_uuid st) rs = (None, None, Some e, rs3)
           \<Longrightarrow> f_promise (fst (snd (authenticate_tick c t1 t2 t3 t4 (st, rs)))) = Rejected (RejMessage e)"
    and "poll_terminal AUTH_ACK AUTH_NACK AUTH_ERR t1 t2 t3 (f_uuid st) rs = (None, None, None, rs3)
           \<Longrightarrow> f_promise (fst (snd (authenticate_tick c t1 t2 t3 t4 (st, rs)))) = Rejected (RejError ''expired'')"
proof -
  assume "poll_terminal AUTH_ACK AUTH_NACK AUTH_ERR t1 t2 t3 (f_uuid st) rs = (Some a, qn, qe, rs3)"
    "aes_decrypt c (data a) (f_auth_key st) = Some s" "json_parse c s = Some d"
    "d \<noteq> JNull" "d \<noteq> JUndefined"
  then show "f_promise (fst (snd (authenticate_tick c t1 t2 t3 t4 (st, rs)))) = Fulfilled (a\<lparr>data := d\<rparr>)"
    using assms
    by (simp add: authenticate_tick_def authenticate_ack_def check_expired_settled
      resolve_pending clearInterval_fields Let_def)
next
  assume "poll_terminal AUTH_ACK AUTH_NACK AUTH_ERR t1 t2 t3 (f_uuid st) rs = (None, Some n, qe, rs3)"
    "aes_decrypt c (data n) (f_auth_key st) = f_uuid st"
  then show "f_promise (fst (snd (authenticate_tick c t1 t2 t3 t4 (st, rs)))) = Rejected (RejMessage n)"
    using assms
    by (cases "f_uuid st") (simp_all add: authenticate_tick_def check_expired_settled reject_pending truthy_str_def)
next
  assume "poll_terminal AUTH_ACK AUTH_NACK AUTH_ERR t1 t2 t3 (f_uuid st) rs = (None, None, Some e, rs3)"
  then show "f_promise (fst (snd (authenticate_tick c t1 t2 t3 t4 (st, rs)))) = Rejected (RejMessage e)"
    using assms
    by (simp add: authenticate_tick_def check_expired_settled reject_pending)
next
  assume "poll_terminal AUTH_ACK AUTH_NACK AUTH_ERR t1 t2 t3 (f_uuid st) rs = (None, None, None, rs3)"
  then show "f_promise (fst (snd (authenticate_tick c t1 t2 t3 t4 (st, rs)))) = Rejected (RejError ''expired'')"
    using assms
    by (simp add: authenticate_tick_def check_expired_pending)
qed

lemma sign_ack_poll:
  "poll_terminal SIGN_ACK SIGN_NACK SIGN_ERR 1000 1000 1000 (Some ''u1'') [sign_ack_u1]
     = (Some sign_ack_u1, None, None, [])"
  by (simp add: poll_terminal_def getRequest_def sign_ack_u1_def sample_msg_def truthy_num_def truthy_str_def)

lemma sign_ack_late_tick:
  "f_promise (fst (snd (broadcast_tick sample_codec 1000 1000 1000 1000
       (confirmed_flow (Some 500), [sign_ack_u1])))) = Fulfilled sign_ack_u1"
  by (simp add: broadcast_tick_def confirmed_flow_fields sign_ack_poll truthy_u1
      check_expired_settled resolve_pending clearInterval_fields)

lemma sign_ack_available:
  "fst (getRequest 1000 SIGN_ACK (Some ''u1'') [sign_ack_u1]) = Some sign_ack_u1"
  by (simp add: getRequest_def sign_ack_u1_def sample_msg_def truthy_num_def truthy_str_def)

text \<open>
  Claim C1, as stated, fails: a \<open>broadcast\<close> flow knows its correlation id \<open>u1\<close>, its
  deadline 500 has passed at time 1000, and a \<open>sign_ack\<close> for \<open>u1\<close> is in the store.
  The callback resolves the promise with the message; the \<open>reject\<close> of the final
  check comes second and does nothing. The flow ends with the matched message, not
  with the expiration.
\<close>

theorem ack_beats_expiration:
  "f_promise (fst (snd (broadcast_tick sample_codec 1000 1000 1000 1000
       (confirmed_flow (Some 500), [sign_ack_u1])))) = Fulfilled sign_ack_u1
   \<and> f_promise (confirmed_flow (Some 500)) = Pending
   \<and> f_expire (confirmed_flow (Some 500)) = Some 500 \<and> (500::int) \<le> 1000
   \<and> fst (getRequest 1000 SIGN_ACK (Some ''u1'') [sign_ack_u1]) = Some sign_ack_u1"
  by (simp add: sign_ack_late_tick sign_ack_available confirmed_flow_fields)

text \<open>
  Claim C1, amended: in every tick of a flow that knows its correlation id, whose
  promise is pending and whose deadline has passed at the final check, a terminal
  message that the callback accepts settles the promise first and the expiration
  has no effect: the flow ends with the matched message. That is the case for a
  \<open>sign_ack\<close>; for an \<open>auth_ack\<close> or \<open>challenge_ack\<close> whose payload decrypts and parses
  (to something other than \<open>null\<close>, in \<open>authenticate\<close>); failing an ack, for a
  \<open>sign_nack\<close> or \<open>challenge_nack\<close>, and for an \<open>auth_nack\<close> whose payload decrypts to
  the correlation id; failing both, for an \<open>auth_err\<close>, and for a \<open>sign_err\<close> or
  \<open>challenge_err\<close> whose error text decrypts. The flow ends with the expiration when
  no terminal message is matched.
\<close>

theorem late_match_wins:
  fixes st :: flow and rs :: "message list" and c :: codec and t1 t2 t3 t4 :: int
  defines "pa \<equiv> poll_terminal AUTH_ACK AUTH_NACK AUTH_ERR t1 t2 t3 (f_uuid st) rs"
    and "pb \<equiv> poll_terminal SIGN_ACK SIGN_NACK SIGN_ERR t1 t2 t3 (f_uuid st) rs"
    and "pc \<equiv> poll_terminal CHALLENGE_ACK CHALLENGE_NACK CHALLENGE_ERR t1 t2 t3 (f_uuid st) rs"
    and "oa \<equiv> f_promise (fst (snd (authenticate_tick c t1 t2 t3 t4 (st, rs))))"
    and "ob \<equiv> f_promise (fst (snd (broadcast_tick c t1 t2 t3 t4 (st, rs))))"
    and "oc \<equiv> f_promise (fst (snd (challenge_tick c t1 t2 t3 t4 (st, rs))))"
  assumes "truthy_str (f_uuid st)" and "f_promise st = Pending" and "num_le (f_expire st) t4"
  shows
    "(\<forall>a qn qe rs3 s d. pa = (Some a, qn, qe, rs3) \<and> aes_decrypt c (data a) (f_auth_key st) = Some s
        \<and> json_parse c s = Some d \<and> d \<noteq> JNull \<and> d \<noteq> JUndefined
        \<longrightarrow> oa = Fulfilled (a\<lparr>data := d\<rparr>))
     \<and> (\<forall>n qe rs3. pa = (None, Some n, qe, rs3) \<and> aes_decrypt c (data n) (f_auth_key st) = f_uuid st
        \<longrightarrow> oa = Rejected (RejMessage n))
     \<and> (\<forall>e rs3. pa = (None, None, Some e, rs3) \<longrightarrow> oa = Rejected (RejMessage e))
     \<and> (\<forall>rs3. pa = (None, None, None, rs3) \<longrightarrow> oa = Rejected (RejError ''expired''))
     \<and> (\<forall>a qn qe rs3. pb = (Some a, qn, qe, rs3) \<longrightarrow> ob = Fulfilled a)
     \<and> (\<forall>n qe rs3. pb = (None, Some n, qe, rs3) \<longrightarrow> ob = Rejected (RejMessage n))
     \<and> (\<forall>e rs3 s. pb = (None, None, Some e, rs3)
          \<and> aes_decrypt c (error e) (get_prop (f_auth st) ''key'') = Some s
        \<longrightarrow> ob = Rejected (RejError s))
     \<and> (\<forall>rs3. pb = (None, None, None, rs3) \<longrightarrow> ob = Rejected (RejError ''expired''))
     \<and> (\<forall>a qn qe rs3 s d. pc = (Some a, qn, qe, rs3)
          \<and> aes_decrypt c (data a) (get_prop (f_auth st) ''key'') = Some s \<and> json_parse c s = Some d
        \<longrightarrow> oc = Fulfilled (a\<lparr>data := d\<rparr>))
     \<and> (\<forall>n qe rs3. pc = (None, Some n, qe, rs3) \<longrightarrow> oc = Rejected (RejMessage n))
     \<and> (\<forall>e rs3 s. pc = (None, None, Some e, rs3)
          \<and> aes_decrypt c (error e) (get_prop (f_auth st) ''key'') = Some s
        \<longrightarrow> oc = Rejected (RejError s))
     \<and> (\<forall>rs3. pc = (None, None, None, rs3) \<longrightarrow> oc = Rejected (RejError ''expired''))"
proof -
  note h = assms(7-9)
  have a1: "\<forall>a qn qe rs3 s d. pa = (Some a, qn, qe, rs3)
        \<and> aes_decrypt c (data a) (f_auth_key st) = Some s
        \<and> json_parse c s = Some d \<and> d \<noteq> JNull \<and> d \<noteq> JUndefined
        \<longrightarrow> oa = Fulfilled (a\<lparr>data := d\<rparr>)"
    unfolding pa_def oa_def using authenticate_late(1) [OF h] by blast
  have a2: "\<forall>n qe rs3. pa = (None, Some n, qe, rs3)
        \<and> aes_decrypt c (data n) (f_auth_key st) = f_uuid st
        \<longrightarrow> oa = Rejected (RejMessage n)"
    unfolding pa_def oa_def using authenticate_late(2) [OF h] by blast
  have a3: "\<forall>e rs3. pa = (None, None, Some e, rs3) \<longrightarrow> oa = Rejected (RejMessage e)"
    unfolding pa_def oa_def using authenticate_late(3) [OF h] by blast
  have a4: "\<forall>rs3. pa = (None, None, None, rs3) \<longrightarrow> oa = Rejected (RejError ''expired'')"
    unfolding pa_def oa_def using authenticate_late(4) [OF h] by blast
  have b1: "\<forall>a qn qe rs3. pb = (Some a, qn, qe, rs3) \<longrightarrow> ob = Fulfilled a"
    unfolding pb_def ob_def using broadcast_late(1) [OF h] by blast
  have b2: "\<forall>n qe rs3. pb = (None, Some n, qe, rs3) \<longrightarrow> ob = Rejected (RejMessage n)"
    unfolding pb_def ob_def using broadcast_late(2) [OF h] by blast
  have b3: "\<forall>e rs3 s. pb = (None, None, Some e, rs3)
          \<and> aes_decrypt c (error e) (get_prop (f_auth st) ''key'') = Some s
        \<longrightarrow> ob = Rejected (RejError s)"
    unfolding pb_def ob_def using broadcast_late(3) [OF h] by blast
  have b4: "\<forall>rs3. pb = (None, None, None, rs3) \<longrightarrow> ob = Rejected (RejError ''expired'')"
    unfolding pb_def ob_def using broadcast_late(4) [OF h] by blast
  have c1: "\<forall>a qn qe rs3 s d. pc = (Some a, qn, qe, rs3)
          \<and> aes_decrypt c (data a) (get_prop (f_auth st) ''key'') = Some s
          \<and> json_parse c s = Some d
        \<longrightarrow> oc = Fulfilled (a\<lparr>data := d\<rparr>)"
    unfolding pc_def oc_def using challenge_late(1) [OF h] by blast
  have c2: "\<forall>n qe rs3. pc = (None, Some n, qe, rs3) \<longrightarrow> oc = Rejected (RejMessage n)"
    unfolding pc_def oc_def using challenge_late(2) [OF h] by blast
  have c3: "\<forall>e rs3 s. pc = (None, None, Some e, rs3)
          \<and> aes_decrypt c (error e) (get_prop (f_auth st) ''key'') = Some s
        \<longrightarrow> oc = Rejected (RejError s)"
    unfolding pc_def oc_def using challenge_late(3) [OF h] by blast
  have c4: "\<forall>rs3. pc = (None, None, None, rs3) \<longrightarrow> oc = Rejected (RejError ''expired'')"
    unfolding pc_def oc_def using challenge_late(4) [OF h] by blast
  from a1 a2 a3 a4 b1 b2 b3 b4 c1 c2 c3 c4 show ?thesis
    by (intro conjI)
qed

lemma sign_nack_poll:
  "poll_terminal SIGN_ACK SIGN_NACK SIGN_ERR 1000 1000 1000 (Some ''u1'') [sign_nack_u1]
     = (None, Some sign_nack_u1, None, [])"
  by (simp add: poll_terminal_def getRequest_def sign_nack_u1_def sample_msg_def truthy_num_def
      truthy_str_def SIGN_ACK_def SIGN_NACK_def)

lemma auth_ack_poll:
  "poll_terminal AUTH_ACK AUTH_NACK AUTH_ERR 1000 1000 1000 (Some ''u1'') [auth_ack_ok]
     = (Some auth_ack_ok, None, None, [])"
  by (simp add: poll_terminal_def getRequest_def auth_ack_ok_def sample_msg_def truthy_num_def
      truthy_str_def)

lemma auth_ack_ok_decodes:
  "aes_decrypt sample_codec (data auth_ack_ok) (JStr ''k1'') = Some ''{}''"
  "json_parse sample_codec ''{}'' = Some (JObj [])"
  by (simp_all add: sample_codec_def auth_ack_ok_def sample_msg_def)

theorem late_match_wins_witness:
  "f_promise (fst (snd (authenticate_tick sample_codec 1000 1000 1000 1000
       (confirmed_flow (Some 500), [auth_ack_ok])))) = Fulfilled (auth_ack_ok\<lparr>data := JObj []\<rparr>)
   \<and> f_promise (fst (snd (broadcast_tick sample_codec 1000 1000 1000 1000
       (confirmed_flow (Some 500), [sign_nack_u1])))) = Rejected (RejMessage sign_nack_u1)
   \<and> f_promise (fst (snd (challenge_tick sample_codec 1000 1000 1000 1000
       (confirmed_flow (Some 500), [])))) = Rejected (RejError ''expired'')"
proof -
  have h: "truthy_str (f_uuid (confirmed_flow (Some 500)))"
    "f_promise (confirmed_flow (Some 500)) = Pending"
    "num_le (f_expire (confirmed_flow (Some 500))) 1000"
    by (simp_all add: confirmed_flow_fields truthy_u1 due_500)
  show ?thesis
    using late_match_wins [OF h, of 1000 1000 1000 "[auth_ack_ok]" sample_codec]
      late_match_wins [OF h, of 1000 1000 1000 "[sign_nack_u1]" sample_codec]
      late_match_wins [OF h, of 1000 1000 1000 "[]" sample_codec]
    by (simp add: confirmed_flow_fields auth_ack_poll sign_nack_poll empty_poll auth_ack_ok_decodes)
qed

subsection \<open>Rejections\<close>

lemma authenticate_nack:
  assumes "truthy_str (f_uuid st)" and "f_promise st = Pending"
    and "poll_terminal AUTH_ACK AUTH_NACK AUTH_ERR t1 t2 t3 (f_uuid st) rs = (None, Some n, qe, rs3)"
  shows "f_promise (fst (snd (authenticate_tick c t1 t2 t3 t4 (st, rs)))) = Rejected (RejMessage n)
           \<longleftrightarrow> aes_decrypt c (data n) (f_auth_key st) = f_uuid st"
    and "snd (snd (authenticate_tick c t1 t2 t3 t4 (st, rs))) = rs3"
    and "aes_decrypt c (data n) (f_auth_key st) \<noteq> f_uuid st \<Longrightarrow> \<not> num_le (f_expire st) t4
           \<Longrightarrow> fst (snd (authenticate_tick c t1 t2 t3 t4 (st, rs))) = st"
    and "aes_decrypt c (data n) (f_auth_key st) = None
           \<Longrightarrow> authenticate_tick c t1 t2 t3 t4 (st, rs) = (Some DecryptError, st, rs3)"
proof -
  obtain u where u: "f_uuid st = Some u" using assms(1) by (cases "f_uuid st") (simp_all add: truthy_str_def)
  show "f_promise (fst (snd (authenticate_tick c t1 t2 t3 t4 (st, rs)))) = Rejected (RejMessage n)
           \<longleftrightarrow> aes_decrypt c (data n) (f_auth_key st) = f_uuid st"
  proof (cases "aes_decrypt c (data n) (f_auth_key st)")
    case None
    then show ?thesis using assms u by (simp add: authenticate_tick_def)
  next
    case (Some s)
    show ?thesis
    proof (cases "s = u")
      case True
      then show ?thesis using assms u Some
        by (simp add: authenticate_tick_def check_expired_settled reject_pending)
    next
      case False
      then show ?thesis using assms u Some
        by (simp add: authenticate_tick_def check_expired_def reject_def clearInterval_def)
    qed
  qed
  show "snd (snd (authenticate_tick c t1 t2 t3 t4 (st, rs))) = rs3"
    using assms by (simp add: authenticate_tick_def split: option.splits)
  show "aes_decrypt c (data n) (f_auth_key st) \<noteq> f_uuid st \<Longrightarrow> \<not> num_le (f_expire st) t4
           \<Longrightarrow> fst (snd (authenticate_tick c t1 t2 t3 t4 (st, rs))) = st"
    using assms u by (auto simp: authenticate_tick_def check_expired_not_due split: option.splits)
  show "aes_decrypt c (data n) (f_auth_key st) = None
           \<Longrightarrow> authenticate_tick c t1 t2 t3 t4 (st, rs) = (Some DecryptError, st, rs3)"
    using assms by (simp add: authenticate_tick_def)
qed

lemma broadcast_nack:
  assumes "truthy_str (f_uuid st)" and "f_promise st = Pending"
    and "poll_terminal SIGN_ACK SIGN_NACK SIGN_ERR t1 t2 t3 (f_uuid st) rs = (None, Some n, qe, rs3)"
  shows "f_promise (fst (snd (broadcast_tick c t1 t2 t3 t4 (st, rs)))) = Rejected (RejMessage n)"
    and "\<not> f_wait (fst (snd (broadcast_tick c t1 t2 t3 t4 (st, rs))))"
  using assms
  by (simp_all add: broadcast_tick_def check_expired_def reject_def clearInterval_def)

lemma challenge_nack:
  assumes "truthy_str (f_uuid st)" and "f_promise st = Pending"
    and "poll_terminal CHALLENGE_ACK CHALLENGE_NACK CHALLENGE_ERR t1 t2 t3 (f_uuid st) rs = (None, Some n, qe, rs3)"
  shows "f_promise (fst (snd (challenge_tick c t1 t2 t3 t4 (st, rs)))) = Rejected (RejMessage n)"
    and "\<not> f_wait (fst (snd (challenge_tick c t1 t2 t3 t4 (st, rs))))"
  using assms
  by (simp_all add: challenge_tick_def check_expired_def reject_def clearInterval_def)

lemma authenticate_ack_promise:
  "f_promise st = Pending \<Longrightarrow>
     f_promise (authenticate_ack c a st) = Pending
     \<or> (\<exists>v. f_promise (authenticate_ack c a st) = Fulfilled v)"
  by (auto simp: authenticate_ack_def resolve_def clearInterval_def Let_def split: option.splits)

lemma authenticate_nack_only_if:
  assumes "truthy_str (f_uuid st)" and "f_promise st = Pending"
    and "poll_terminal AUTH_ACK AUTH_NACK AUTH_ERR t1 t2 t3 (f_uuid st) rs = (qa, Some n, qe, rs3)"
    and "f_promise (fst (snd (authenticate_tick c t1 t2 t3 t4 (st, rs)))) = Rejected (RejMessage n)"
  shows "aes_decrypt c (data n) (f_auth_key st) = f_uuid st"
proof (cases qa)
  case None
  then show ?thesis using authenticate_nack(1) [OF assms(1,2), of t1 t2 t3 rs n qe rs3 c t4] assms(3,4)
    by simp
next
  case (Some a)
  then have "authenticate_tick c t1 t2 t3 t4 (st, rs) = (None, check_expired t4 (authenticate_ack c a st), rs3)"
    using assms(1,3) by (simp add: authenticate_tick_def)
  then have "f_promise (check_expired t4 (authenticate_ack c a st)) = Rejected (RejMessage n)"
    using assms(4) by simp
  moreover have "f_promise (check_expired t4 (authenticate_ack c a st)) = f_promise (authenticate_ack c a st)
     \<or> f_promise (check_expired t4 (authenticate_ack c a st)) = Rejected (RejError ''expired'')"
    by (rule check_expired_promise)
  ultimately show ?thesis
    using authenticate_ack_promise [OF assms(2), of c a] by auto
qed

lemma authenticate_tick_store:
  assumes "truthy_str (f_uuid st)"
    and "poll_terminal AUTH_ACK AUTH_NACK AUTH_ERR t1 t2 t3 (f_uuid st) rs = (qa, qn, qe, rs3)"
  shows "snd (snd (authenticate_tick c t1 t2 t3 t4 (st, rs))) = rs3"
  using assms by (simp add: authenticate_tick_def split: option.splits)

lemma broadcast_tick_store:
  assumes "truthy_str (f_uuid st)"
    and "poll_terminal SIGN_ACK SIGN_NACK SIGN_ERR t1 t2 t3 (f_uuid st) rs = (qa, qn, qe, rs3)"
  shows "snd (snd (broadcast_tick c t1 t2 t3 t4 (st, rs))) = rs3"
  using assms by (simp add: broadcast_tick_def split: option.splits)

lemma challenge_tick_store:
  assumes "truthy_str (f_uuid st)"
    and "poll_terminal CHALLENGE_ACK CHALLENGE_NACK CHALLENGE_ERR t1 t2 t3 (f_uuid st) rs = (qa, qn, qe, rs3)"
  shows "snd (snd (challenge_tick c t1 t2 t3 t4 (st, rs))) = rs3"
  using assms by (simp add: challenge_tick_def split: option.splits)

lemma challenge_ack_promise:
  "f_promise st = Pending \<Longrightarrow>
     f_promise (challenge_ack c a st) = Pending
     \<or> (\<exists>v. f_promise (challenge_ack c a st) = Fulfilled v)"
  by (auto simp: challenge_ack_def resolve_def clearInterval_def split: option.splits)

lemma challenge_ack_takes_precedence:
  assumes "truthy_str (f_uuid st)" and "f_promise st = Pending"
    and "poll_terminal CHALLENGE_ACK CHALLENGE_NACK CHALLENGE_ERR t1 t2 t3 (f_uuid st) rs = (Some a, qn, qe, rs3)"
  shows "f_promise (fst (snd (challenge_tick c t1 t2 t3 t4 (st, rs)))) \<noteq> Rejected (RejMessage n)"
proof -
  have "challenge_tick c t1 t2 t3 t4 (st, rs) = (None, check_expired t4 (challenge_ack c a st), rs3)"
    using assms(1,3) by (simp add: challenge_tick_def)
  moreover have "f_promise (check_expired t4 (challenge_ack c a st)) = f_promise (challenge_ack c a st)
     \<or> f_promise (check_expired t4 (challenge_ack c a st)) = Rejected (RejError ''expired'')"
    by (rule check_expired_promise)
  ultimately show ?thesis
    using challenge_ack_promise [OF assms(2), of c a] by auto
qed

lemma broadcast_ack_takes_precedence:
  assumes "truthy_str (f_uuid st)" and "f_promise st = Pending"
    and "poll_terminal SIGN_ACK SIGN_NACK SIGN_ERR t1 t2 t3 (f_uuid st) rs = (Some a, qn, qe, rs3)"
  shows "f_promise (fst (snd (broadcast_tick c t1 t2 t3 t4 (st, rs)))) = Fulfilled a"
  using assms
  by (simp add: broadcast_tick_def check_expired_def reject_def resolve_def clearInterval_def)

lemma nack_and_ack_poll:
  "poll_terminal SIGN_ACK SIGN_NACK SIGN_ERR 1000 1000 1000 (Some ''u1'')
     [sign_nack_forged, sign_ack_u1] = (Some sign_ack_u1, Some sign_nack_forged, None, [])"
  by (simp add: poll_terminal_def getRequest_def sign_nack_forged_def sign_ack_u1_def
      sample_msg_def truthy_num_def truthy_str_def SIGN_ACK_def SIGN_NACK_def SIGN_ERR_def)

text \<open>
  Claim C5, as stated, fails: a \<open>broadcast\<close> flow knows its correlation id \<open>u1\<close>; a
  \<open>sign_nack\<close> and a \<open>sign_ack\<close> for \<open>u1\<close> are in the store. Both are matched and
  removed, the callback looks at the ack only (\<open>if(req_ack) ... else if(req_nack)\<close>),
  and the promise is resolved: the matched nack is not treated as a rejection.
\<close>

theorem nack_dropped_when_ack_matched:
  "poll_terminal SIGN_ACK SIGN_NACK SIGN_ERR 1000 1000 1000
     (f_uuid (confirmed_flow (Some 2000))) [sign_nack_forged, sign_ack_u1]
     = (Some sign_ack_u1, Some sign_nack_forged, None, [])
   \<and> uuid sign_nack_forged = f_uuid (confirmed_flow (Some 2000))
   \<and> f_promise (confirmed_flow (Some 2000)) = Pending
   \<and> f_promise (fst (snd (broadcast_tick sample_codec 1000 1000 1000 1000
        (confirmed_flow (Some 2000), [sign_nack_forged, sign_ack_u1])))) = Fulfilled sign_ack_u1
   \<and> snd (snd (broadcast_tick sample_codec 1000 1000 1000 1000
        (confirmed_flow (Some 2000), [sign_nack_forged, sign_ack_u1]))) = []"
proof -
  have h: "truthy_str (f_uuid (confirmed_flow (Some 2000)))"
    "f_promise (confirmed_flow (Some 2000)) = Pending"
    by (simp_all add: confirmed_flow_fields truthy_u1)
  have p: "poll_terminal SIGN_ACK SIGN_NACK SIGN_ERR 1000 1000 1000
      (f_uuid (confirmed_flow (Some 2000))) [sign_nack_forged, sign_ack_u1]
      = (Some sign_ack_u1, Some sign_nack_forged, None, [])"
    unfolding confirmed_flow_fields by (rule nack_and_ack_poll)
  have u: "uuid sign_nack_forged = Some ''u1''"
    by (simp add: sign_nack_forged_def sample_msg_fields)
  show ?thesis
    using broadcast_ack_takes_precedence [OF h p, of sample_codec 1000]
      broadcast_tick_store [OF h(1) p, of sample_codec 1000] p h(2)
    by (simp add: u confirmed_flow_fields)
qed

text \<open>
  Claim C5, amended: in a tick of a flow that knows its correlation id and whose
  promise is pending. In \<open>authenticate\<close>, a matched nack is what the promise is
  rejected with only if its payload, decrypted under the session key, is the
  correlation id, and the message is gone from the store either way. When no ack
  was matched in the same tick (the callback looks at the nack only then), the
  promise is rejected with the nack exactly when the payload decrypts to the
  correlation id; when it decrypts to something else and the deadline has not
  passed, or when decryption throws, the flow is left as it was, still polling. In
  \<open>broadcast\<close> and \<open>challenge\<close>, when no ack was matched in the same tick, the promise
  is rejected with the matched nack and the interval is cleared, whatever the
  payload. When an ack was matched in the same tick, the matched nack is removed
  from the store and is not what the promise is rejected with: \<open>broadcast\<close>
  resolves with the ack, \<open>challenge\<close> handles the ack alone.
\<close>

theorem nack_verification:
  fixes st :: flow and rs :: "message list" and c :: codec and t1 t2 t3 t4 :: int
  defines "pa \<equiv> poll_terminal AUTH_ACK AUTH_NACK AUTH_ERR t1 t2 t3 (f_uuid st) rs"
    and "pb \<equiv> poll_terminal SIGN_ACK SIGN_NACK SIGN_ERR t1 t2 t3 (f_uuid st) rs"
    and "pc \<equiv> poll_terminal CHALLENGE_ACK CHALLENGE_NACK CHALLENGE_ERR t1 t2 t3 (f_uuid st) rs"
    and "ra \<equiv> authenticate_tick c t1 t2 t3 t4 (st, rs)"
    and "rb \<equiv> broadcast_tick c t1 t2 t3 t4 (st, rs)"
    and "rc \<equiv> challenge_tick c t1 t2 t3 t4 (st, rs)"
  assumes "truthy_str (f_uuid st)" and "f_promise st = Pending"
  shows
    "(\<forall>qa n qe rs3. pa = (qa, Some n, qe, rs3) \<longrightarrow>
        (f_promise (fst (snd ra)) = Rejected (RejMessage n)
           \<longrightarrow> aes_decrypt c (data n) (f_auth_key st) = f_uuid st)
        \<and> n \<notin> set (snd (snd ra)))
     \<and> (\<forall>n qe rs3. pa = (None, Some n, qe, rs3) \<longrightarrow>
        (f_promise (fst (snd ra)) = Rejected (RejMessage n)
           \<longleftrightarrow> aes_decrypt c (data n) (f_auth_key st) = f_uuid st)
        \<and> n \<notin> set (snd (snd ra))
        \<and> (aes_decrypt c (data n) (f_auth_key st) \<noteq> f_uuid st \<and> \<not> num_le (f_expire st) t4
             \<longrightarrow> fst (snd ra) = st)
        \<and> (aes_decrypt c (data n) (f_auth_key st) = None \<longrightarrow> fst (snd ra) = st))
     \<and> (\<forall>n qe rs3. pb = (None, Some n, qe, rs3) \<longrightarrow>
          f_promise (fst (snd rb)) = Rejected (RejMessage n) \<and> \<not> f_wait (fst (snd rb)))
     \<and> (\<forall>n qe rs3. pc = (None, Some n, qe, rs3) \<longrightarrow>
          f_promise (fst (snd rc)) = Rejected (RejMessage n) \<and> \<not> f_wait (fst (snd rc)))
     \<and> (\<forall>a n qe rs3. pb = (Some a, Some n, qe, rs3) \<longrightarrow>
          f_promise (fst (snd rb)) = Fulfilled a \<and> n \<notin> set (snd (snd rb)))
     \<and> (\<forall>a n qe rs3. pc = (Some a, Some n, qe, rs3) \<longrightarrow>
          f_promise (fst (snd rc)) \<noteq> Rejected (RejMessage n) \<and> n \<notin> set (snd (snd rc)))"
proof -
  note h = assms(7,8)
  have a0: "\<forall>qa n qe rs3. pa = (qa, Some n, qe, rs3) \<longrightarrow>
        (f_promise (fst (snd ra)) = Rejected (RejMessage n)
           \<longrightarrow> aes_decrypt c (data n) (f_auth_key st) = f_uuid st)
        \<and> n \<notin> set (snd (snd ra))"
  proof (intro allI impI conjI)
    fix qa n qe rs3 assume p: "pa = (qa, Some n, qe, rs3)"
    then have p': "poll_terminal AUTH_ACK AUTH_NACK AUTH_ERR t1 t2 t3 (f_uuid st) rs
        = (qa, Some n, qe, rs3)"
      by (simp add: pa_def)
    show "n \<notin> set (snd (snd ra))"
      unfolding ra_def authenticate_tick_store [OF h(1) p']
      using poll_terminal_nack_gone [OF p'] .
    assume "f_promise (fst (snd ra)) = Rejected (RejMessage n)"
    then show "aes_decrypt c (data n) (f_auth_key st) = f_uuid st"
      unfolding ra_def using authenticate_nack_only_if [OF h p'] by blast
  qed
  have a: "\<forall>n qe rs3. pa = (None, Some n, qe, rs3) \<longrightarrow>
        (f_promise (fst (snd ra)) = Rejected (RejMessage n)
           \<longleftrightarrow> aes_decrypt c (data n) (f_auth_key st) = f_uuid st)
        \<and> n \<notin> set (snd (snd ra))
        \<and> (aes_decrypt c (data n) (f_auth_key st) \<noteq> f_uuid st \<and> \<not> num_le (f_expire st) t4
             \<longrightarrow> fst (snd ra) = st)
        \<and> (aes_decrypt c (data n) (f_auth_key st) = None \<longrightarrow> fst (snd ra) = st)"
  proof (intro allI impI)
    fix n qe rs3 assume p: "pa = (None, Some n, qe, rs3)"
    then have p': "poll_terminal AUTH_ACK AUTH_NACK AUTH_ERR t1 t2 t3 (f_uuid st) rs
        = (None, Some n, qe, rs3)"
      by (simp add: pa_def)
    have gone: "n \<notin> set rs3" using poll_terminal_nack_gone [OF p'] .
    show "(f_promise (fst (snd ra)) = Rejected (RejMessage n)
           \<longleftrightarrow> aes_decrypt c (data n) (f_auth_key st) = f_uuid st)
        \<and> n \<notin> set (snd (snd ra))
        \<and> (aes_decrypt c (data n) (f_auth_key st) \<noteq> f_uuid st \<and> \<not> num_le (f_expire st) t4
             \<longrightarrow> fst (snd ra) = st)
        \<and> (aes_decrypt c (data n) (f_auth_key st) = None \<longrightarrow> fst (snd ra) = st)"
      unfolding ra_def
      using authenticate_nack(1) [OF h p', of c t4] authenticate_nack(2) [OF h p', of c t4]
        authenticate_nack(3) [OF h p', of c t4] authenticate_nack(4) [OF h p', of c t4] gone
      by simp
  qed
  have b: "\<forall>n qe rs3. pb = (None, Some n, qe, rs3) \<longrightarrow>
          f_promise (fst (snd rb)) = Rejected (RejMessage n) \<and> \<not> f_wait (fst (snd rb))"
    unfolding pb_def rb_def using broadcast_nack [OF h] by blast
  have c: "\<forall>n qe rs3. pc = (None, Some n, qe, rs3) \<longrightarrow>
          f_promise (fst (snd rc)) = Rejected (RejMessage n) \<and> \<not> f_wait (fst (snd rc))"
    unfolding pc_def rc_def using challenge_nack [OF h] by blast
  have b2: "\<forall>a n qe rs3. pb = (Some a, Some n, qe, rs3) \<longrightarrow>
          f_promise (fst (snd rb)) = Fulfilled a \<and> n \<notin> set (snd (snd rb))"
  proof (intro allI impI conjI)
    fix a n qe rs3 assume p: "pb = (Some a, Some n, qe, rs3)"
    then have p': "poll_terminal SIGN_ACK SIGN_NACK SIGN_ERR t1 t2 t3 (f_uuid st) rs
        = (Some a, Some n, qe, rs3)"
      by (simp add: pb_def)
    show "f_promise (fst (snd rb)) = Fulfilled a"
      unfolding rb_def using broadcast_ack_takes_precedence [OF h p'] .
    show "n \<notin> set (snd (snd rb))"
      unfolding rb_def broadcast_tick_store [OF h(1) p']
      using poll_terminal_nack_gone [OF p'] .
  qed
  have c2: "\<forall>a n qe rs3. pc = (Some a, Some n, qe, rs3) \<longrightarrow>
          f_promise (fst (snd rc)) \<noteq> Rejected (RejMessage n) \<and> n \<notin> set (snd (snd rc))"
  proof (intro allI impI conjI)
    fix a n qe rs3 assume p: "pc = (Some a, Some n, qe, rs3)"
    then have p': "poll_terminal CHALLENGE_ACK CHALLENGE_NACK CHALLENGE_ERR t1 t2 t3 (f_uuid st) rs
        = (Some a, Some n, qe, rs3)"
      by (simp add: pc_def)
    show "f_promise (fst (snd rc)) \<noteq> Rejected (RejMessage n)"
      unfolding rc_def using challenge_ack_takes_precedence [OF h p'] .
    show "n \<notin> set (snd (snd rc))"
      unfolding rc_def challenge_tick_store [OF h(1) p']
      using poll_terminal_nack_gone [OF p'] .
  qed
  from a0 a b c b2 c2 show ?thesis by (intro conjI)
qed

theorem nack_verification_witness:
  "f_promise (fst (snd (authenticate_tick sample_codec 1000 1000 1000 1000
       (confirmed_flow (Some 2000), [auth_nack_good])))) = Rejected (RejMessage auth_nack_good)
   \<and> fst (snd (authenticate_tick sample_codec 1000 1000 1000 1000
       (confirmed_flow (Some 2000), [auth_nack_forged]))) = confirmed_flow (Some 2000)
   \<and> f_promise (fst (snd (broadcast_tick sample_codec 1000 1000 1000 1000
       (confirmed_flow (Some 2000), [sign_nack_forged])))) = Rejected (RejMessage sign_nack_forged)
   \<and> f_promise (fst (snd (broadcast_tick sample_codec 1000 1000 1000 1000
       (confirmed_flow (Some 2000), [sign_nack_forged, sign_ack_u1])))) = Fulfilled sign_ack_u1"
proof -
  have h: "truthy_str (f_uuid (confirmed_flow (Some 2000)))"
    "f_promise (confirmed_flow (Some 2000)) = Pending"
    by (simp_all add: confirmed_flow_fields truthy_u1)
  have p1: "poll_terminal AUTH_ACK AUTH_NACK AUTH_ERR 1000 1000 1000 (Some ''u1'') [auth_nack_good]
      = (None, Some auth_nack_good, None, [])"
    by (rule one_nack_poll) (simp_all add: auth_nack_good_def sample_msg_fields kinds_distinct)
  have p2: "poll_terminal AUTH_ACK AUTH_NACK AUTH_ERR 1000 1000 1000 (Some ''u1'') [auth_nack_forged]
      = (None, Some auth_nack_forged, None, [])"
    by (rule one_nack_poll) (simp_all add: auth_nack_forged_def sample_msg_fields kinds_distinct)
  have p3: "poll_terminal SIGN_ACK SIGN_NACK SIGN_ERR 1000 1000 1000 (Some ''u1'') [sign_nack_forged]
      = (None, Some sign_nack_forged, None, [])"
    by (rule one_nack_poll) (simp_all add: sign_nack_forged_def sample_msg_fields kinds_distinct)
  have d: "data auth_nack_good = JStr ''u1''" "data auth_nack_forged = JStr ''other''"
    by (simp_all add: auth_nack_good_def auth_nack_forged_def sample_msg_fields)
  show ?thesis
    using nack_verification [OF h, of 1000 1000 1000 "[auth_nack_good]" sample_codec 1000]
      nack_verification [OF h, of 1000 1000 1000 "[auth_nack_forged]" sample_codec 1000]
      nack_verification [OF h, of 1000 1000 1000 "[sign_nack_forged]" sample_codec 1000]
      nack_verification [OF h, of 1000 1000 1000 "[sign_nack_forged, sign_ack_u1]" sample_codec 1000]
    by (simp add: confirmed_flow_fields p1 p2 p3 nack_and_ack_poll d sample_decrypt not_due_2000)
qed

subsection \<open>Payloads that do not decode\<close>

lemma authenticate_undecodable:
  assumes "truthy_str (f_uuid st)"
    and "poll_terminal AUTH_ACK AUTH_NACK AUTH_ERR t1 t2 t3 (f_uuid st) rs = (Some a, qn, qe, rs3)"
    and "aes_decrypt c (data a) (f_auth_key st) = None
         \<or> (\<exists>s. aes_decrypt c (data a) (f_auth_key st) = Some s \<and> json_parse c s = None)"
  shows "authenticate_tick c t1 t2 t3 t4 (st, rs) = (None, check_expired t4 st, rs3)"
  using assms by (auto simp: authenticate_tick_def authenticate_ack_def)

lemma challenge_undecodable:
  assumes "truthy_str (f_uuid st)"
    and "poll_terminal CHALLENGE_ACK CHALLENGE_NACK CHALLENGE_ERR t1 t2 t3 (f_uuid st) rs = (Some a, qn, qe, rs3)"
    and "aes_decrypt c (data a) (get_prop (f_auth st) ''key'') = None
         \<or> (\<exists>s. aes_decrypt c (data a) (get_prop (f_auth st) ''key'') = Some s \<and> json_parse c s = None)"
  shows "challenge_tick c t1 t2 t3 t4 (st, rs) = (None, check_expired t4 st, rs3)"
  using assms by (auto simp: challenge_tick_def challenge_ack_def)

lemma broadcast_any_ack:
  assumes "truthy_str (f_uuid st)" and "f_promise st = Pending"
    and "poll_terminal SIGN_ACK SIGN_NACK SIGN_ERR t1 t2 t3 (f_uuid st) rs = (Some a, qn, qe, rs3)"
  shows "f_promise (fst (snd (broadcast_tick c t1 t2 t3 t4 (st, rs)))) = Fulfilled a"
    and "\<not> f_wait (fst (snd (broadcast_tick c t1 t2 t3 t4 (st, rs))))"
  using assms
  by (simp_all add: broadcast_tick_def check_expired_def reject_def resolve_def clearInterval_def)

text \<open>
  Claim C6, as stated, fails for \<open>broadcast\<close>: a \<open>sign_ack\<close> whose payload does not
  decrypt under the session key is not discarded. The flow never decrypts it: the
  promise is resolved with the message and the interval is cleared.
\<close>

theorem broadcast_resolves_undecodable_ack:
  "aes_decrypt sample_codec (data sign_ack_garbled)
       (get_prop (f_auth (confirmed_flow (Some 2000))) ''key'') = None
   \<and> f_promise (fst (snd (broadcast_tick sample_codec 1000 1000 1000 1000
        (confirmed_flow (Some 2000), [sign_ack_garbled])))) = Fulfilled sign_ack_garbled
   \<and> f_wait (fst (snd (broadcast_tick sample_codec 1000 1000 1000 1000
        (confirmed_flow (Some 2000), [sign_ack_garbled])))) = False"
proof -
  have h: "truthy_str (f_uuid (confirmed_flow (Some 2000)))"
    "f_promise (confirmed_flow (Some 2000)) = Pending"
    by (simp_all add: confirmed_flow_fields truthy_u1)
  have p: "poll_terminal SIGN_ACK SIGN_NACK SIGN_ERR 1000 1000 1000
      (f_uuid (confirmed_flow (Some 2000))) [sign_ack_garbled]
      = (Some sign_ack_garbled, None, None, [])"
    unfolding confirmed_flow_fields
    by (rule one_ack_poll) (simp_all add: sign_ack_garbled_def sample_msg_fields)
  have d: "data sign_ack_garbled = JStr ''garbage''"
    by (simp add: sign_ack_garbled_def sample_msg_fields)
  show ?thesis
    using broadcast_any_ack [OF h p, of sample_codec 1000]
    by (simp add: d sample_decrypt)
qed

text \<open>
  Claim C6, amended: in \<open>authenticate\<close> and \<open>challenge\<close>, when a matched ack has a
  payload that fails to decrypt or to parse under the session key, the tick ends as
  if nothing had been matched: no exception, the message gone from the store, the
  promise pending (or rejected as expired when the deadline has passed), and the
  flow unchanged and still polling when the deadline has not passed. \<open>broadcast\<close>
  does not decrypt a matched ack: it resolves with the message as received.
\<close>

theorem undecodable_ack_discarded:
  fixes st :: flow and rs :: "message list" and c :: codec and t1 t2 t3 t4 :: int
  defines "pa \<equiv> poll_terminal AUTH_ACK AUTH_NACK AUTH_ERR t1 t2 t3 (f_uuid st) rs"
    and "pb \<equiv> poll_terminal SIGN_ACK SIGN_NACK SIGN_ERR t1 t2 t3 (f_uuid st) rs"
    and "pc \<equiv> poll_terminal CHALLENGE_ACK CHALLENGE_NACK CHALLENGE_ERR t1 t2 t3 (f_uuid st) rs"
    and "ra \<equiv> authenticate_tick c t1 t2 t3 t4 (st, rs)"
    and "rb \<equiv> broadcast_tick c t1 t2 t3 t4 (st, rs)"
    and "rc \<equiv> challenge_tick c t1 t2 t3 t4 (st, rs)"
  assumes "truthy_str (f_uuid st)" and "f_promise st = Pending"
  shows
    "(\<forall>a qn qe rs3. pa = (Some a, qn, qe, rs3)
         \<and> (aes_decrypt c (data a) (f_auth_key st) = None
            \<or> (\<exists>s. aes_decrypt c (data a) (f_auth_key st) = Some s \<and> json_parse c s = None))
        \<longrightarrow> ra = (None, check_expired t4 st, rs3) \<and> a \<notin> set (snd (snd ra))
            \<and> (f_promise (fst (snd ra)) = Pending
                \<or> f_promise (fst (snd ra)) = Rejected (RejError ''expired''))
            \<and> (\<not> num_le (f_expire st) t4 \<longrightarrow> fst (snd ra) = st))
     \<and> (\<forall>a qn qe rs3. pc = (Some a, qn, qe, rs3)
         \<and> (aes_decrypt c (data a) (get_prop (f_auth st) ''key'') = None
            \<or> (\<exists>s. aes_decrypt c (data a) (get_prop (f_auth st) ''key'') = Some s
                   \<and> json_parse c s = None))
        \<longrightarrow> rc = (None, check_expired t4 st, rs3) \<and> a \<notin> set (snd (snd rc))
            \<and> (f_promise (fst (snd rc)) = Pending
                \<or> f_promise (fst (snd rc)) = Rejected (RejError ''expired''))
            \<and> (\<not> num_le (f_expire st) t4 \<longrightarrow> fst (snd rc) = st))
     \<and> (\<forall>a qn qe rs3. pb = (Some a, qn, qe, rs3)
        \<longrightarrow> f_promise (fst (snd rb)) = Fulfilled a \<and> \<not> f_wait (fst (snd rb)))"
proof -
  note h = assms(7,8)
  have a: "\<forall>a qn qe rs3. pa = (Some a, qn, qe, rs3)
         \<and> (aes_decrypt c (data a) (f_auth_key st) = None
            \<or> (\<exists>s. aes_decrypt c (data a) (f_auth_key st) = Some s \<and> json_parse c s = None))
        \<longrightarrow> ra = (None, check_expired t4 st, rs3) \<and> a \<notin> set (snd (snd ra))
            \<and> (f_promise (fst (snd ra)) = Pending
                \<or> f_promise (fst (snd ra)) = Rejected (RejError ''expired''))
            \<and> (\<not> num_le (f_expire st) t4 \<longrightarrow> fst (snd ra) = st)"
  proof (intro allI impI, elim conjE)
    fix a qn qe rs3
    assume p: "pa = (Some a, qn, qe, rs3)"
      and d: "aes_decrypt c (data a) (f_auth_key st) = None
            \<or> (\<exists>s. aes_decrypt c (data a) (f_auth_key st) = Some s \<and> json_parse c s = None)"
    have p': "poll_terminal AUTH_ACK AUTH_NACK AUTH_ERR t1 t2 t3 (f_uuid st) rs
        = (Some a, qn, qe, rs3)"
      using p by (simp add: pa_def)
    have r: "ra = (None, check_expired t4 st, rs3)"
      unfolding ra_def using authenticate_undecodable [OF h(1) p' d] .
    show "ra = (None, check_expired t4 st, rs3) \<and> a \<notin> set (snd (snd ra))
            \<and> (f_promise (fst (snd ra)) = Pending
                \<or> f_promise (fst (snd ra)) = Rejected (RejError ''expired''))
            \<and> (\<not> num_le (f_expire st) t4 \<longrightarrow> fst (snd ra) = st)"
      using r poll_terminal_ack_gone [OF p'] check_expired_promise [of t4 st] h(2)
      by (simp add: check_expired_not_due)
  qed
  have c: "\<forall>a qn qe rs3. pc = (Some a, qn, qe, rs3)
         \<and> (aes_decrypt c (data a) (get_prop (f_auth st) ''key'') = None
            \<or> (\<exists>s. aes_decrypt c (data a) (get_prop (f_auth st) ''key'') = Some s
                   \<and> json_parse c s = None))
        \<longrightarrow> rc = (None, check_expired t4 st, rs3) \<and> a \<notin> set (snd (snd rc))
            \<and> (f_promise (fst (snd rc)) = Pending
                \<or> f_promise (fst (snd rc)) = Rejected (RejError ''expired''))
            \<and> (\<not> num_le (f_expire st) t4 \<longrightarrow> fst (snd rc) = st)"
  proof (intro allI impI, elim conjE)
    fix a qn qe rs3
    assume p: "pc = (Some a, qn, qe, rs3)"
      and d: "aes_decrypt c (data a) (get_prop (f_auth st) ''key'') = None
            \<or> (\<exists>s. aes_decrypt c (data a) (get_prop (f_auth st) ''key'') = Some s
                   \<and> json_parse c s = None)"
    have p': "poll_terminal CHALLENGE_ACK CHALLENGE_NACK CHALLENGE_ERR t1 t2 t3 (f_uuid st) rs
        = (Some a, qn, qe, rs3)"
      using p by (simp add: pc_def)
    have r: "rc = (None, check_expired t4 st, rs3)"
      unfolding rc_def using challenge_undecodable [OF h(1) p' d] .
    show "rc = (None, check_expired t4 st, rs3) \<and> a \<notin> set (snd (snd rc))
            \<and> (f_promise (fst (snd rc)) = Pending
                \<or> f_promise (fst (snd rc)) = Rejected (RejError ''expired''))
            \<and> (\<not> num_le (f_expire st) t4 \<longrightarrow> fst (snd rc) = st)"
      using r poll_terminal_ack_gone [OF p'] check_expired_promise [of t4 st] h(2)
      by (simp add: check_expired_not_due)
  qed
  have b: "\<forall>a qn qe rs3. pb = (Some a, qn, qe, rs3)
        \<longrightarrow> f_promise (fst (snd rb)) = Fulfilled a \<and> \<not> f_wait (fst (snd rb))"
    unfolding pb_def rb_def using broadcast_any_ack [OF h] by blast
  from a c b show ?thesis by (intro conjI)
qed

theorem undecodable_ack_discarded_witness:
  "authenticate_tick sample_codec 1000 1000 1000 1000 (confirmed_flow (Some 2000), [auth_ack_garbled])
     = (None, confirmed_flow (Some 2000), [])
   \<and> challenge_tick sample_codec 1000 1000 1000 1000
       (confirmed_flow (Some 2000), [challenge_ack_unparsable])
     = (None, confirmed_flow (Some 2000), [])"
proof -
  have h: "truthy_str (f_uuid (confirmed_flow (Some 2000)))"
    "f_promise (confirmed_flow (Some 2000)) = Pending"
    by (simp_all add: confirmed_flow_fields truthy_u1)
  have p1: "poll_terminal AUTH_ACK AUTH_NACK AUTH_ERR 1000 1000 1000 (Some ''u1'') [auth_ack_garbled]
      = (Some auth_ack_garbled, None, None, [])"
    by (rule one_ack_poll) (simp_all add: auth_ack_garbled_def sample_msg_fields)
  have p2: "poll_terminal CHALLENGE_ACK CHALLENGE_NACK CHALLENGE_ERR 1000 1000 1000 (Some ''u1'')
      [challenge_ack_unparsable] = (Some challenge_ack_unparsable, None, None, [])"
    by (rule one_ack_poll) (simp_all add: challenge_ack_unparsable_def sample_msg_fields)
  have d: "data auth_ack_garbled = JStr ''garbage''"
    "data challenge_ack_unparsable = JStr ''not json''"
    by (simp_all add: auth_ack_garbled_def challenge_ack_unparsable_def sample_msg_fields)
  have k: "get_prop alice ''key'' = JStr ''k1''"
    by (simp add: alice_def)
  show ?thesis
    using undecodable_ack_discarded [OF h, of 1000 1000 1000 "[auth_ack_garbled]" sample_codec 1000]
      undecodable_ack_discarded [OF h, of 1000 1000 1000 "[challenge_ack_unparsable]" sample_codec 1000]
    by (simp add: confirmed_flow_fields p1 p2 d k sample_decrypt not_due_2000 check_expired_not_due)
qed

subsection \<open>The confirmation\<close>
















subsection \<open>Validation and the session key\<close>

text \<open>
  Claim C2 does not hold of the code: the comment above \<open>authenticate\<close> calls
  \<open>challenge_data\<close> optional and the parameter defaults to \<open>undefined\<close>, but the third
  \<open>assert\<close> requires it. With a valid \<open>auth\<close> and \<open>app_data\<close> and \<open>challenge_data\<close>
  omitted, the executor throws before anything is sent; the promise stays pending.
\<close>

theorem authenticate_requires_challenge_data:
  assumes "truthy auth" and "truthy (get_prop auth ''username'')"
    and "is_string (get_prop auth ''username'')"
    and "truthy app_data" and "truthy (get_prop app_data ''name'')"
    and "is_string (get_prop app_data ''name'')"
  shows "authenticate c connected fresh now auth app_data JUndefined cbWait w =
     (Some (AssertionError ''missing or invalid challenge_data.key_type''),
      never_started auth cbWait, w)
   \<and> f_promise (never_started auth cbWait) = Pending
   \<and> f_wait (never_started auth cbWait) = False"
  using assms by (simp add: authenticate_def never_started_def)

theorem authenticate_requires_challenge_data_witness:
  "authenticate sample_codec True ''fresh'' 1000 bob my_app JUndefined False (sample_world []) =
     (Some (AssertionError ''missing or invalid challenge_data.key_type''),
      never_started bob False, sample_world [])
   \<and> f_promise (never_started bob False) = Pending
   \<and> sent (sample_world []) = []"
proof -
  have h: "truthy bob" "truthy (get_prop bob ''username'')" "is_string (get_prop bob ''username'')"
    "truthy my_app" "truthy (get_prop my_app ''name'')" "is_string (get_prop my_app ''name'')"
    by (simp_all add: bob_def my_app_def)
  show ?thesis
    using authenticate_requires_challenge_data
      [OF h, of sample_codec True "''fresh''" 1000 False "sample_world []"]
    by (simp add: sample_world_def)
qed

text \<open>
  Claim C7: \<open>broadcast\<close> with an empty \<open>ops\<close> array sends nothing: an \<open>assert\<close>
  fails before \<open>send\<close>, whatever the other arguments. The rejection the claim
  speaks of does not reach the caller: the assertion is thrown inside the \<open>async\<close>
  executor, so the returned promise stays pending and no interval is set.
\<close>

theorem broadcast_empty_ops_never_settles:
  "(\<exists>msg. broadcast c connected now auth key_type (JArr []) cbWait w =
       (Some (AssertionError msg), never_started auth cbWait, w))
   \<and> f_promise (never_started auth cbWait) = Pending
   \<and> f_wait (never_started auth cbWait) = False"
  by (simp add: broadcast_def never_started_def)

theorem broadcast_empty_ops_never_settles_witness:
  "broadcast sample_codec True 1000 alice (JStr ''posting'') (JArr []) False (sample_world []) =
       (Some (AssertionError ''missing or invalid ops''), never_started alice False, sample_world [])
   \<and> f_promise (never_started alice False) = Pending
   \<and> sent (sample_world []) = []"
  using broadcast_empty_ops_never_settles [of sample_codec True 1000 alice "JStr ''posting''" False "sample_world []"]
  by (simp add: broadcast_def alice_def sample_world_def never_started_def)

lemma authenticate_asserts_fail:
  assumes "\<not> authenticate_asserts auth app_data challenge_data connected"
  shows "\<exists>msg. authenticate c connected fresh now auth app_data challenge_data cbWait w =
     (Some (AssertionError msg), never_started auth cbWait, w)"
  using assms unfolding authenticate_asserts_def authenticate_def
  by (simp only: split: if_split) blast


lemma authenticate_asserts_pass:
  assumes "authenticate_asserts auth app_data challenge_data connected"
  shows "authenticate c connected fresh now auth app_data challenge_data cbWait w =
     (case aes_encrypt c
             (JStr (json_stringify c
                (JObj [(''token'', get_prop auth ''token''), (''app'', app_data),
                       (''challenge'', challenge_data)])))
             (auth_key_of auth fresh) of
        None \<Rightarrow> (Some EncryptError, never_started auth cbWait, w)
      | Some ciphertext \<Rightarrow>
          if truthy (auth_key_secret w) then
            (case aes_encrypt c (auth_key_of auth fresh) (auth_key_secret w) of
               None \<Rightarrow> (Some EncryptError, never_started auth cbWait, w)
             | Some k \<Rightarrow>
                 (None, started auth (auth_key_of auth fresh) cbWait now w,
                  send (json_stringify c
                          (set_prop
                             (JObj [(''cmd'', JStr AUTH_REQ),
                                    (''account'', get_prop auth ''username''),
                                    (''token'', get_prop auth ''token''),
                                    (''data'', JStr ciphertext)])
                             ''auth_key'' (JStr k))) w))
          else
            (None, started auth (auth_key_of auth fresh) cbWait now w,
             send (json_stringify c
                     (JObj [(''cmd'', JStr AUTH_REQ), (''account'', get_prop auth ''username''),
                            (''token'', get_prop auth ''token''),
                            (''data'', JStr ciphertext)])) w))"
  using assms unfolding authenticate_asserts_def
  by (simp add: authenticate_def Let_def del: set_prop.simps split: option.split)

lemma authenticate_throws_unchanged:
  "fst (authenticate c connected fresh now auth app_data challenge_data cbWait w) \<noteq> None \<Longrightarrow>
     snd (authenticate c connected fresh now auth app_data challenge_data cbWait w)
       = (never_started auth cbWait, w)"
proof (cases "authenticate_asserts auth app_data challenge_data connected")
  case False
  from authenticate_asserts_fail [OF False, of c fresh now cbWait w]
  show ?thesis by auto
next
  case True
  assume "fst (authenticate c connected fresh now auth app_data challenge_data cbWait w) \<noteq> None"
  then show ?thesis
    unfolding authenticate_asserts_pass [OF True]
    by (auto split: option.splits if_splits)
qed

lemma authenticate_started:
  assumes "fst (authenticate c connected fresh now auth app_data challenge_data cbWait w) = None"
  shows "f_auth_key (fst (snd (authenticate c connected fresh now auth app_data challenge_data
                                 cbWait w))) = auth_key_of auth fresh
     \<and> (\<exists>ciphertext request.
           aes_encrypt c
             (JStr (json_stringify c
                (JObj [(''token'', get_prop auth ''token''), (''app'', app_data),
                       (''challenge'', challenge_data)])))
             (auth_key_of auth fresh) = Some ciphertext
           \<and> get_prop request ''data'' = JStr ciphertext
           \<and> snd (snd (authenticate c connected fresh now auth app_data challenge_data cbWait w))
               = w\<lparr>sent := sent w @ [json_stringify c request]\<rparr>)"
proof (cases "authenticate_asserts auth app_data challenge_data connected")
  case False
  from authenticate_asserts_fail [OF False, of c fresh now cbWait w] assms
  show ?thesis by auto
next
  case True
  let ?P = "JStr (json_stringify c
                (JObj [(''token'', get_prop auth ''token''), (''app'', app_data),
                       (''challenge'', challenge_data)]))"
  note r = authenticate_asserts_pass [OF True, of c fresh now cbWait w]
  obtain ct where ct: "aes_encrypt c ?P (auth_key_of auth fresh) = Some ct"
    using assms unfolding r by (cases "aes_encrypt c ?P (auth_key_of auth fresh)") simp_all
  let ?payload = "JObj [(''cmd'', JStr AUTH_REQ), (''account'', get_prop auth ''username''),
                        (''token'', get_prop auth ''token''), (''data'', JStr ct)]"
  show ?thesis
  proof (cases "truthy (auth_key_secret w)")
    case False
    have d: "get_prop ?payload ''data'' = JStr ct" by simp
    have "authenticate c connected fresh now auth app_data challenge_data cbWait w
        = (None, started auth (auth_key_of auth fresh) cbWait now w,
           send (json_stringify c ?payload) w)"
      unfolding r using ct False by simp
    then show ?thesis using ct d
      by (auto simp: started_def send_def simp del: get_prop.simps)
  next
    case True
    obtain k where k: "aes_encrypt c (auth_key_of auth fresh) (auth_key_secret w) = Some k"
      using assms True ct unfolding r
      by (cases "aes_encrypt c (auth_key_of auth fresh) (auth_key_secret w)") simp_all
    have d: "get_prop (set_prop ?payload ''auth_key'' (JStr k)) ''data'' = JStr ct" by simp
    have "authenticate c connected fresh now auth app_data challenge_data cbWait w
        = (None, started auth (auth_key_of auth fresh) cbWait now w,
           send (json_stringify c (set_prop ?payload ''auth_key'' (JStr k))) w)"
      unfolding r using ct True k by simp
    then show ?thesis using ct d
      by (auto simp: started_def send_def simp del: get_prop.simps set_prop.simps)
  qed
qed

lemma authenticate_encrypt_throws:
  assumes "aes_encrypt c
             (JStr (json_stringify c
                (JObj [(''token'', get_prop auth ''token''), (''app'', app_data),
                       (''challenge'', challenge_data)])))
             (auth_key_of auth fresh) = None"
  shows "fst (authenticate c connected fresh now auth app_data challenge_data cbWait w) \<noteq> None"
    and "authenticate_asserts auth app_data challenge_data connected \<Longrightarrow>
         authenticate c connected fresh now auth app_data challenge_data cbWait w
           = (Some EncryptError, never_started auth cbWait, w)"
proof -
  show "authenticate_asserts auth app_data challenge_data connected \<Longrightarrow>
         authenticate c connected fresh now auth app_data challenge_data cbWait w
           = (Some EncryptError, never_started auth cbWait, w)"
    using assms by (simp add: authenticate_asserts_pass)
  then show "fst (authenticate c connected fresh now auth app_data challenge_data cbWait w) \<noteq> None"
    using authenticate_asserts_fail [of auth app_data challenge_data connected c fresh now cbWait w]
    by (cases "authenticate_asserts auth app_data challenge_data connected") auto
qed

text \<open>
  Claim C9: the key of an \<open>authenticate\<close> call is \<open>auth.key\<close> itself when that is
  set (truthy) and the fresh \<open>uuidv4()\<close> otherwise, a value computed from \<open>auth\<close>
  alone. In every call that does not throw, that key is the key of the flow and
  the \<open>data\<close> of the one request sent is the payload encrypted under it; the call
  changes the module's state by that one \<open>send\<close> only. A call that throws changes
  nothing; in particular, when the encryption under that key throws (as it may for
  a key that is not a string, which \<open>authenticate\<close> does not test), the call throws
  before \<open>send\<close>.
\<close>

theorem session_key_reused_or_fresh:
  fixes c :: codec and auth app_data challenge_data :: jsval and w :: world and fresh :: string
    and connected cbWait :: bool and now :: int
  defines "R \<equiv> authenticate c connected fresh now auth app_data challenge_data cbWait w"
    and "P \<equiv> JStr (json_stringify c
                 (JObj [(''token'', get_prop auth ''token''), (''app'', app_data),
                        (''challenge'', challenge_data)]))"
  shows "(truthy (get_prop auth ''key'') \<longrightarrow> auth_key_of auth fresh = get_prop auth ''key'')
     \<and> (\<not> truthy (get_prop auth ''key'') \<longrightarrow> auth_key_of auth fresh = JStr fresh)
     \<and> (fst R = None \<longrightarrow>
          f_auth_key (fst (snd R)) = auth_key_of auth fresh
          \<and> (\<exists>ciphertext request.
                aes_encrypt c P (auth_key_of auth fresh) = Some ciphertext
                \<and> get_prop request ''data'' = JStr ciphertext
                \<and> snd (snd R) = w\<lparr>sent := sent w @ [json_stringify c request]\<rparr>))
     \<and> (fst R \<noteq> None \<longrightarrow> snd R = (never_started auth cbWait, w))
     \<and> (aes_encrypt c P (auth_key_of auth fresh) = None \<longrightarrow>
          fst R \<noteq> None
          \<and> (authenticate_asserts auth app_data challenge_data connected \<longrightarrow>
               R = (Some EncryptError, never_started auth cbWait, w)))"
proof -
  have k1: "truthy (get_prop auth ''key'') \<longrightarrow> auth_key_of auth fresh = get_prop auth ''key''"
    and k2: "\<not> truthy (get_prop auth ''key'') \<longrightarrow> auth_key_of auth fresh = JStr fresh"
    by (simp_all add: auth_key_of_def)
  have ok: "fst R = None \<longrightarrow>
          f_auth_key (fst (snd R)) = auth_key_of auth fresh
          \<and> (\<exists>ciphertext request.
                aes_encrypt c P (auth_key_of auth fresh) = Some ciphertext
                \<and> get_prop request ''data'' = JStr ciphertext
                \<and> snd (snd R) = w\<lparr>sent := sent w @ [json_stringify c request]\<rparr>)"
    unfolding R_def P_def using authenticate_started by blast
  have thrown: "fst R \<noteq> None \<longrightarrow> snd R = (never_started auth cbWait, w)"
    unfolding R_def using authenticate_throws_unchanged by blast
  have enc: "aes_encrypt c P (auth_key_of auth fresh) = None \<longrightarrow>
          fst R \<noteq> None
          \<and> (authenticate_asserts auth app_data challenge_data connected \<longrightarrow>
               R = (Some EncryptError, never_started auth cbWait, w))"
    unfolding R_def P_def using authenticate_encrypt_throws by blast
  from k1 k2 ok thrown enc show ?thesis by (intro conjI)
qed

lemma sample_encrypt:
  "aes_encrypt sample_codec (JStr p) (JStr k) = Some p"
  "aes_encrypt sample_codec q (JNum n) = None"
  by (simp_all add: sample_codec_def)

lemma alice_starts:
  "authenticate sample_codec True ''fresh'' 1000 alice my_app my_challenge False (sample_world [])
   = (None, started alice (JStr ''k1'') False 1000 (sample_world []),
      send ''{}'' (sample_world []))"
proof -
  have v: "authenticate_asserts alice my_app my_challenge True"
    by (simp add: authenticate_asserts_def alice_def my_app_def my_challenge_def)
  have k: "auth_key_of alice ''fresh'' = JStr ''k1''"
    by (simp add: auth_key_of_def alice_def)
  have s: "auth_key_secret (sample_world []) = JUndefined" "json_stringify sample_codec x = ''{}''" for x
    by (simp_all add: sample_world_def sample_codec_def)
  show ?thesis
    unfolding authenticate_asserts_pass [OF v] k by (simp add: s sample_encrypt)
qed

lemma bob_starts:
  "authenticate sample_codec True ''fresh'' 1000 bob my_app my_challenge False (sample_world [])
   = (None, started bob (JStr ''fresh'') False 1000 (sample_world []),
      send ''{}'' (sample_world []))"
proof -
  have v: "authenticate_asserts bob my_app my_challenge True"
    by (simp add: authenticate_asserts_def bob_def my_app_def my_challenge_def)
  have k: "auth_key_of bob ''fresh'' = JStr ''fresh''"
    by (simp add: auth_key_of_def bob_def)
  have s: "auth_key_secret (sample_world []) = JUndefined" "json_stringify sample_codec x = ''{}''" for x
    by (simp_all add: sample_world_def sample_codec_def)
  show ?thesis
    unfolding authenticate_asserts_pass [OF v] k by (simp add: s sample_encrypt)
qed

theorem session_key_reused_or_fresh_witness:
  "f_auth_key (fst (snd (authenticate sample_codec True ''fresh'' 1000 alice my_app my_challenge
       False (sample_world [])))) = JStr ''k1''
   \<and> f_auth_key (fst (snd (authenticate sample_codec True ''fresh'' 1000 bob my_app my_challenge
       False (sample_world [])))) = JStr ''fresh''
   \<and> requests (snd (snd (authenticate sample_codec True ''fresh'' 1000 bob my_app my_challenge
       False (sample_world [])))) = []
   \<and> sent (snd (snd (authenticate sample_codec True ''fresh'' 1000 bob my_app my_challenge
       False (sample_world [])))) = [''{}'']
   \<and> authenticate sample_codec True ''fresh'' 1000 carol my_app my_challenge False (sample_world [])
       = (Some EncryptError, never_started carol False, sample_world [])"
proof -
  have ka: "get_prop alice ''key'' = JStr ''k1''" "truthy (JStr ''k1'')" by (simp_all add: alice_def)
  have kc: "auth_key_of carol ''fresh'' = JNum 5" by (simp add: carol_def auth_key_of_def)
  have v: "authenticate_asserts carol my_app my_challenge True"
    by (simp add: authenticate_asserts_def carol_def my_app_def my_challenge_def)
  have a: "f_auth_key (fst (snd (authenticate sample_codec True ''fresh'' 1000 alice my_app
       my_challenge False (sample_world [])))) = JStr ''k1''"
    using session_key_reused_or_fresh
      [of alice "''fresh''" sample_codec True 1000 my_app my_challenge False "sample_world []"]
    by (simp add: alice_starts ka)
  have b: "requests (snd (snd (authenticate sample_codec True ''fresh'' 1000 bob my_app my_challenge
       False (sample_world [])))) = []"
    "sent (snd (snd (authenticate sample_codec True ''fresh'' 1000 bob my_app my_challenge
       False (sample_world [])))) = [''{}'']"
    "f_auth_key (fst (snd (authenticate sample_codec True ''fresh'' 1000 bob my_app my_challenge
       False (sample_world [])))) = JStr ''fresh''"
    unfolding bob_starts by (simp_all add: send_def sample_world_def started_def)
  have c: "authenticate sample_codec True ''fresh'' 1000 carol my_app my_challenge False
       (sample_world []) = (Some EncryptError, never_started carol False, sample_world [])"
    using session_key_reused_or_fresh
      [of carol "''fresh''" sample_codec True 1000 my_app my_challenge False "sample_world []"]
    by (simp add: kc sample_encrypt v)
  from a b c show ?thesis by simp
qed

end
